theory Spec2Isabelle
  imports Main "HOL-Library.Word" "HOL-Library.Signed_Division"
begin

unbundle bit_operations_syntax

section \<open>Machine integers, bit macros and error codes\<close>

type_synonym u8 = "8 word"
type_synonym u16 = "16 word"
type_synonym u32 = "32 word"
type_synonym u64 = "64 word"
type_synonym s32 = "32 word"
type_synonym s64 = "64 word"

text \<open>
  The kernel's \<^verbatim>\<open>BIT(n)\<close> and \<^verbatim>\<open>GENMASK(h, l)\<close>, at the width of the
  variable that receives them.
\<close>

definition BIT :: "nat \<Rightarrow> 'a::len word" where
  "BIT n = push_bit n 1"

definition GENMASK :: "nat \<Rightarrow> nat \<Rightarrow> 'a::len word" where
  "GENMASK h l = push_bit l (mask (Suc h - l))"

definition EINVAL :: int where "EINVAL = 22"
definition ERANGE :: int where "ERANGE = 34"
definition EOPNOTSUPP :: int where "EOPNOTSUPP = 95"
definition ETIMEDOUT :: int where "ETIMEDOUT = 110"

definition NSEC_PER_SEC :: int where "NSEC_PER_SEC = 1000000000"
definition PSEC_PER_SEC :: int where "PSEC_PER_SEC = 1000000000000"

text \<open>
  A driver function returns \<^verbatim>\<open>int ret\<close>: zero, or a negative errno that every
  caller tests with \<^verbatim>\<open>if (ret) goto out\<close>. A non-zero \<^verbatim>\<open>ret\<close> is
  \<open>Inl (Errno ret)\<close>. An integer division by zero (or \<^verbatim>\<open>INT_MIN / -1\<close>) does
  not return at all: the kernel takes a divide fault, \<open>Inl DivideError\<close>.
\<close>

datatype error = Errno int | DivideError

section \<open>Register addresses and constants of the driver\<close>

definition DPLL_TOD_CTRL :: "u8 \<Rightarrow> nat" where
  "DPLL_TOD_CTRL index = 0x2b8 + unat index"
definition DPLL_TOD_CTRL_SEM :: int where
  "DPLL_TOD_CTRL_SEM = 0x10"
definition DPLL_DF_OFFSET :: "u8 \<Rightarrow> nat" where
  "DPLL_DF_OFFSET index = 0x300 + unat index * 0x20"
definition DPLL_TOD_SEC :: "u8 \<Rightarrow> nat" where
  "DPLL_TOD_SEC index = 0x312 + unat index * 0x20"
definition DPLL_TOD_SEC_SIZE :: nat where "DPLL_TOD_SEC_SIZE = 6"
definition DPLL_TOD_NSEC :: "u8 \<Rightarrow> nat" where
  "DPLL_TOD_NSEC index = 0x318 + unat index * 0x20"
definition DPLL_TOD_NSEC_SIZE :: nat where "DPLL_TOD_NSEC_SIZE = 6"

definition DPLL_OUTPUT_CTRL :: "nat \<Rightarrow> nat" where
  "DPLL_OUTPUT_CTRL index = 0x4a8 + index"
definition DPLL_OUTPUT_CTRL_SIZE :: nat where "DPLL_OUTPUT_CTRL_SIZE = 1"
definition DPLL_OUTPUT_CTRL_SYNTH_SEL_GET :: "u8 \<Rightarrow> u8" where
  "DPLL_OUTPUT_CTRL_SYNTH_SEL_GET val = drop_bit 4 (val AND GENMASK 6 4)"

definition DPLL_OUTPUT_PHASE_STEP_CTRL :: nat where
  "DPLL_OUTPUT_PHASE_STEP_CTRL = 0x4b8"
definition DPLL_OUTPUT_PHASE_STEP_CTRL_SIZE :: nat where
  "DPLL_OUTPUT_PHASE_STEP_CTRL_SIZE = 1"
definition DPLL_OUTPUT_PHASE_STEP_CTRL_OP :: "u8 \<Rightarrow> u8" where
  "DPLL_OUTPUT_PHASE_STEP_CTRL_OP cmd = cmd AND GENMASK 1 0"
definition DPLL_OUTPUT_PAHSE_STEP_CTRL_OP_WRITE :: u8 where
  "DPLL_OUTPUT_PAHSE_STEP_CTRL_OP_WRITE = 3"
definition DPLL_OUTPUT_PHASE_STEP_CTRL_OP_MASK :: int where
  "DPLL_OUTPUT_PHASE_STEP_CTRL_OP_MASK = 3"
definition DPLL_OUTPUT_PHASE_STEP_CTRL_TOD_STEP :: u8 where
  "DPLL_OUTPUT_PHASE_STEP_CTRL_TOD_STEP = BIT 3"
definition DPLL_OUTPUT_PHASE_STEP_CTRL_DPLL :: "u8 \<Rightarrow> u8" where
  "DPLL_OUTPUT_PHASE_STEP_CTRL_DPLL index = push_bit 4 index"
definition DPLL_OUTPUT_PHASE_STEP_NUMBER :: nat where
  "DPLL_OUTPUT_PHASE_STEP_NUMBER = 0x4b9"
definition DPLL_OUTPUT_PHASE_STEP_NUMBER_SIZE :: nat where
  "DPLL_OUTPUT_PHASE_STEP_NUMBER_SIZE = 1"
definition DPLL_OUTPUT_PHASE_STEP_MASK :: nat where
  "DPLL_OUTPUT_PHASE_STEP_MASK = 0x4ba"
definition DPLL_OUTPUT_PHASE_STEP_MASK_SIZE :: nat where
  "DPLL_OUTPUT_PHASE_STEP_MASK_SIZE = 2"
definition DPLL_OUTPUT_PHASE_STEP_DATA :: nat where
  "DPLL_OUTPUT_PHASE_STEP_DATA = 0x4bc"
definition DPLL_OUTPUT_PHASE_STEP_DATA_SIZE :: nat where
  "DPLL_OUTPUT_PHASE_STEP_DATA_SIZE = 4"

definition DPLL_REF_MB_MASK :: nat where "DPLL_REF_MB_MASK = 0x502"
definition DPLL_REF_MB_SEM :: nat where "DPLL_REF_MB_SEM = 0x504"
definition DPLL_REF_MB_SEM_SIZE :: nat where "DPLL_REF_MB_SEM_SIZE = 1"
definition DPLL_REF_MB_SEM_RD :: u8 where "DPLL_REF_MB_SEM_RD = BIT 1"
definition DPLL_REF_MB_SEM_WR :: u8 where "DPLL_REF_MB_SEM_WR = BIT 0"
definition DPLL_REF_FREQ_BASE_REG :: nat where "DPLL_REF_FREQ_BASE_REG = 0x505"
definition DPLL_REF_FREQ_BASE_REG_SIZE :: nat where "DPLL_REF_FREQ_BASE_REG_SIZE = 2"
definition DPLL_REF_FREQ_MULT_REG :: nat where "DPLL_REF_FREQ_MULT_REG = 0x507"
definition DPLL_REF_FREQ_MULT_REG_SIZE :: nat where "DPLL_REF_FREQ_MULT_REG_SIZE = 2"
definition DPLL_REF_FREQ_RATIO_M_REG :: nat where "DPLL_REF_FREQ_RATIO_M_REG = 0x509"
definition DPLL_REF_FREQ_RATIO_M_REG_SIZE :: nat where "DPLL_REF_FREQ_RATIO_M_REG_SIZE = 2"
definition DPLL_REF_FREQ_RATIO_N_REG :: nat where "DPLL_REF_FREQ_RATIO_N_REG = 0x50B"
definition DPLL_REF_FREQ_RATIO_N_REG_SIZE :: nat where "DPLL_REF_FREQ_RATIO_N_REG_SIZE = 2"

definition DPLL_DPLL_MB_MASK :: nat where "DPLL_DPLL_MB_MASK = 0x602"
definition DPLL_DPLL_MB_MASK_SIZE :: nat where "DPLL_DPLL_MB_MASK_SIZE = 2"
definition DPLL_DPLL_MB_SEM :: nat where "DPLL_DPLL_MB_SEM = 0x604"
definition DPLL_DPLL_MB_SEM_SIZE :: nat where "DPLL_DPLL_MB_SEM_SIZE = 1"
definition DPLL_DPLL_MB_SEM_RD :: u8 where "DPLL_DPLL_MB_SEM_RD = BIT 1"
definition DPLL_DPLL_MB_SEM_WR :: u8 where "DPLL_DPLL_MB_SEM_WR = BIT 0"

definition DPLL_REF_PRIORITY :: "u8 \<Rightarrow> nat" where
  "DPLL_REF_PRIORITY refId = 0x652 + unat refId div 2"




definition DPLL_SYNTH_MB_MASK :: nat where "DPLL_SYNTH_MB_MASK = 0x682"
definition DPLL_SYNTH_MB_MASK_SIZE :: nat where "DPLL_SYNTH_MB_MASK_SIZE = 2"
definition DPLL_SYNTH_MB_SEM :: nat where "DPLL_SYNTH_MB_SEM = 0x684"
definition DPLL_SYNTH_MB_SEM_SIZE :: nat where "DPLL_SYNTH_MB_SEM_SIZE = 1"
definition DPLL_SYNTH_MB_SEM_RD :: u8 where "DPLL_SYNTH_MB_SEM_RD = BIT 1"
definition DPLL_SYNTH_FREQ_BASE :: nat where "DPLL_SYNTH_FREQ_BASE = 0x686"
definition DPLL_SYNTH_FREQ_BASE_SIZE :: nat where "DPLL_SYNTH_FREQ_BASE_SIZE = 2"
definition DPLL_SYNTH_FREQ_MULT :: nat where "DPLL_SYNTH_FREQ_MULT = 0x688"
definition DPLL_SYNTH_FREQ_MULT_SIZE :: nat where "DPLL_SYNTH_FREQ_MULT_SIZE = 4"
definition DPLL_SYNTH_FREQ_M :: nat where "DPLL_SYNTH_FREQ_M = 0x68c"
definition DPLL_SYNTH_FREQ_M_SIZE :: nat where "DPLL_SYNTH_FREQ_M_SIZE = 2"
definition DPLL_SYNTH_FREQ_N :: nat where "DPLL_SYNTH_FREQ_N = 0x68e"
definition DPLL_SYNTH_FREQ_N_SIZE :: nat where "DPLL_SYNTH_FREQ_N_SIZE = 2"

definition DPLL_OUTPUT_MB_MASK :: nat where "DPLL_OUTPUT_MB_MASK = 0x702"
definition DPLL_OUTPUT_MB_MASK_SIZE :: nat where "DPLL_OUTPUT_MB_MASK_SIZE = 2"
definition DPLL_OUTPUT_MB_SEM :: nat where "DPLL_OUTPUT_MB_SEM = 0x704"
definition DPLL_OUTPUT_MB_SEM_SIZE :: nat where "DPLL_OUTPUT_MB_SEM_SIZE = 1"
definition DPLL_OUTPUT_MB_SEM_RD :: u8 where "DPLL_OUTPUT_MB_SEM_RD = BIT 1"
definition DPLL_OUTPUT_MB_SEM_WR :: u8 where "DPLL_OUTPUT_MB_SEM_WR = BIT 0"
definition DPLL_OUTPUT_MODE :: nat where "DPLL_OUTPUT_MODE = 0x705"
definition DPLL_OUTPUT_MODE_SIZE :: nat where "DPLL_OUTPUT_MODE_SIZE = 1"
definition DPLL_OUTPUT_MODE_SIGNAL_FORMAT_MASK :: u8 where
  "DPLL_OUTPUT_MODE_SIGNAL_FORMAT_MASK = GENMASK 7 4"
definition DPLL_OUTPUT_DIV :: nat where "DPLL_OUTPUT_DIV = 0x70c"
definition DPLL_OUTPUT_DIV_SIZE :: nat where "DPLL_OUTPUT_DIV_SIZE = 4"
definition DPLL_OUTPUT_WIDTH :: nat where "DPLL_OUTPUT_WIDTH = 0x710"
definition DPLL_OUTPUT_WIDTH_SIZE :: nat where "DPLL_OUTPUT_WIDTH_SIZE = 4"
definition DPLL_OUTPUT_PHASE_COMPENSATION_REG :: nat where
  "DPLL_OUTPUT_PHASE_COMPENSATION_REG = 0x720"
definition DPLL_OUTPUT_PHASE_COMPENSATION_REG_SIZE :: nat where
  "DPLL_OUTPUT_PHASE_COMPENSATION_REG_SIZE = 4"
definition DPLL_OUTPUT_GPO_EN :: nat where "DPLL_OUTPUT_GPO_EN = 0x724"
definition DPLL_OUTPUT_GPO_EN_SIZE :: nat where "DPLL_OUTPUT_GPO_EN_SIZE = 1"

definition ZL3073X_1PPM_FORMAT :: s64 where "ZL3073X_1PPM_FORMAT = 281474976"
definition ZL3073X_MAX_OUTPUT_PINS :: int where "ZL3073X_MAX_OUTPUT_PINS = 20"

definition READ_SLEEP_US :: nat where "READ_SLEEP_US = 10"
definition READ_TIMEOUT_US :: nat where "READ_TIMEOUT_US = 100000000"

definition ZL3073X_P_PIN :: "u8 \<Rightarrow> bool" where
  "ZL3073X_P_PIN pin = (unat pin mod 2 = 0)"
definition ZL3073X_N_PIN :: "u8 \<Rightarrow> bool" where
  "ZL3073X_N_PIN pin = (\<not> ZL3073X_P_PIN pin)"

text \<open>\<^verbatim>\<open>enum zl3073x_tod_ctrl_cmd_t\<close>, with its register encoding.\<close>

datatype zl3073x_tod_ctrl_cmd_t =
  ZL3073X_TOD_CTRL_CMD_WRITE_NEXT_1HZ
| ZL3073X_TOD_CTRL_CMD_READ
| ZL3073X_TOD_CTRL_CMD_READ_NEXT_1HZ

fun tod_ctrl_cmd_val :: "zl3073x_tod_ctrl_cmd_t \<Rightarrow> u8" where
  "tod_ctrl_cmd_val ZL3073X_TOD_CTRL_CMD_WRITE_NEXT_1HZ = 0x1"
| "tod_ctrl_cmd_val ZL3073X_TOD_CTRL_CMD_READ = 0x8"
| "tod_ctrl_cmd_val ZL3073X_TOD_CTRL_CMD_READ_NEXT_1HZ = 0x9"

section \<open>The device and its register transport\<close>

text \<open>
  Every access of the driver goes through \<^verbatim>\<open>regmap_bulk_read\<close> and
  \<^verbatim>\<open>regmap_bulk_write\<close> of the MFD parent, which are not part of the PTP driver.
  They are fields of the device record: a function from the state \<open>'h\<close> of whatever is
  behind the bus to a return code, the bytes read (by offset from the address) and the
  next state. Nothing is assumed of them, so a theorem about every device is a theorem
  about every behaviour of the hardware and of the bus.

  \<open>bus_log\<close> records the bus transactions in the order the driver issues them:
  \<open>BusRead regaddr count ret bytes\<close> and \<open>BusWrite regaddr bytes ret\<close>;
  \<open>perout_mask\<close> is \<^verbatim>\<open>dpll[i].perout_mask\<close>; \<open>ptp_find_pin\<close> is the PTP core's pin
  lookup for the clock of DPLL \<open>i\<close> (function \<^verbatim>\<open>PTP_PF_PEROUT\<close>, given channel), with
  -1 for no pin. The mutex is not modelled: the model is sequential.
\<close>

datatype bus_op = BusRead nat nat int "u8 list" | BusWrite nat "u8 list" int

record 'h zl3073x =
  regmap_bulk_read :: "'h \<Rightarrow> nat \<Rightarrow> nat \<Rightarrow> int \<times> (nat \<Rightarrow> u8) \<times> 'h"
  regmap_bulk_write :: "'h \<Rightarrow> nat \<Rightarrow> u8 list \<Rightarrow> int \<times> 'h"
  regmap :: 'h
  bus_log :: "bus_op list"
  perout_mask :: "u8 \<Rightarrow> u16"
  ptp_find_pin :: "u8 \<Rightarrow> u32 \<Rightarrow> int"

type_synonym ('h, 'a) drv = "'h zl3073x \<Rightarrow> (error + 'a) \<times> 'h zl3073x"

text \<open>\<^verbatim>\<open>ret = f(...); if (ret) goto out;\<close> followed by the rest of the function.\<close>

definition seq :: "('h, 'a) drv \<Rightarrow> ('a \<Rightarrow> ('h, 'b) drv) \<Rightarrow> ('h, 'b) drv" where
  "seq m f z = (case m z of (Inl e, z') \<Rightarrow> (Inl e, z') | (Inr x, z') \<Rightarrow> f x z')"

definition ret_ok :: "'a \<Rightarrow> ('h, 'a) drv" where
  "ret_ok x z = (Inr x, z)"

definition ret_err :: "int \<Rightarrow> ('h, 'a) drv" where
  "ret_err e z = (Inl (Errno e), z)"

definition divide_fault :: "('h, 'a) drv" where
  "divide_fault z = (Inl DivideError, z)"

function zl3073x_swap_loop :: "nat \<Rightarrow> u8 list \<Rightarrow> nat \<Rightarrow> u8 list" where
  "zl3073x_swap_loop i swap count =
     (if i < count div 2
      then zl3073x_swap_loop (i + 1) (swap[i := swap ! (count - i - 1), count - i - 1 := swap ! i]) count
      else swap)"
  by pat_completeness auto
termination
  by (relation "measure (\<lambda>(i, swap, count). count div 2 - i)") auto

definition zl3073x_swap :: "u8 list \<Rightarrow> nat \<Rightarrow> u8 list" where
  "zl3073x_swap swap count = zl3073x_swap_loop 0 swap count"

definition zl3073x_read :: "nat \<Rightarrow> nat \<Rightarrow> ('h, u8 list) drv" where
  "zl3073x_read regaddr count z =
     (case regmap_bulk_read z (regmap z) regaddr count of
        (ret, buf, h) \<Rightarrow>
          (if ret \<noteq> 0 then Inl (Errno ret) else Inr (map buf [0..<count]),
           z\<lparr>regmap := h,
             bus_log := bus_log z @ [BusRead regaddr count ret (map buf [0..<count])]\<rparr>))"

definition zl3073x_write :: "nat \<Rightarrow> u8 list \<Rightarrow> nat \<Rightarrow> ('h, unit) drv" where
  "zl3073x_write regaddr buf count z =
     (let bytes = take count (zl3073x_swap buf count) in
      case regmap_bulk_write z (regmap z) regaddr bytes of
        (ret, h) \<Rightarrow>
          (if ret \<noteq> 0 then Inl (Errno ret) else Inr (),
           z\<lparr>regmap := h, bus_log := bus_log z @ [BusWrite regaddr bytes ret]\<rparr>))"

text \<open>
  The register readers handed to the polling helper: the return code of the read if it
  failed, the byte read otherwise, both as \<^verbatim>\<open>int\<close>.
\<close>

definition read_reg_op :: "nat \<Rightarrow> 'h zl3073x \<Rightarrow> int \<times> 'h zl3073x" where
  "read_reg_op regaddr z =
     (case zl3073x_read regaddr 1 z of
        (Inl (Errno ret), z') \<Rightarrow> (ret, z')
      | (Inl DivideError, z') \<Rightarrow> (0, z')
      | (Inr buf, z') \<Rightarrow> (uint (hd buf), z'))"

definition zl3073x_ptp_tod_sem :: "u8 \<Rightarrow> 'h zl3073x \<Rightarrow> int \<times> 'h zl3073x" where
  "zl3073x_ptp_tod_sem index = read_reg_op (DPLL_TOD_CTRL index)"

definition zl3073x_ptp_phase_ctrl_op :: "'h zl3073x \<Rightarrow> int \<times> 'h zl3073x" where
  "zl3073x_ptp_phase_ctrl_op = read_reg_op DPLL_OUTPUT_PHASE_STEP_CTRL"

definition zl3073x_ref_mb_sem :: "'h zl3073x \<Rightarrow> int \<times> 'h zl3073x" where
  "zl3073x_ref_mb_sem = read_reg_op DPLL_REF_MB_SEM"

definition zl3073x_ptp_synth_mb_sem :: "'h zl3073x \<Rightarrow> int \<times> 'h zl3073x" where
  "zl3073x_ptp_synth_mb_sem = read_reg_op DPLL_SYNTH_MB_SEM"

definition zl3073x_dpll_mb_sem :: "'h zl3073x \<Rightarrow> int \<times> 'h zl3073x" where
  "zl3073x_dpll_mb_sem = read_reg_op DPLL_DPLL_MB_SEM"

definition zl3073x_ptp_output_mb_sem :: "'h zl3073x \<Rightarrow> int \<times> 'h zl3073x" where
  "zl3073x_ptp_output_mb_sem = read_reg_op DPLL_OUTPUT_MB_SEM"

text \<open>
  The kernel's \<^verbatim>\<open>readx_poll_timeout_atomic(op, args, val, cond, sleep_us, timeout_us)\<close>:
  read, stop if the condition holds, else wait \<^verbatim>\<open>sleep_us\<close> and read again; once the
  time is used up, read one last time; the result is 0 if the condition held at the last
  read and \<^verbatim>\<open>-ETIMEDOUT\<close> otherwise. Time is counted in polls: \<open>timeout_us div sleep_us\<close>
  of them before the last one. The kernel counts the time in nanoseconds and charges
  every turn a little more than \<^verbatim>\<open>sleep_us\<close>, so it makes somewhat fewer reads before
  it gives up; what a poll returns is the same.
\<close>

fun poll_loop :: "nat \<Rightarrow> ('h zl3073x \<Rightarrow> int \<times> 'h zl3073x) \<Rightarrow> (int \<Rightarrow> bool) \<Rightarrow>
    'h zl3073x \<Rightarrow> bool \<times> 'h zl3073x" where
  "poll_loop 0 op cond z =
     (case op z of (val, z1) \<Rightarrow>
        if cond val then (True, z1)
        else (case op z1 of (val2, z2) \<Rightarrow> (cond val2, z2)))"
| "poll_loop (Suc n) op cond z =
     (case op z of (val, z1) \<Rightarrow>
        if cond val then (True, z1) else poll_loop n op cond z1)"

definition readx_poll_timeout_atomic ::
    "('h zl3073x \<Rightarrow> int \<times> 'h zl3073x) \<Rightarrow> (int \<Rightarrow> bool) \<Rightarrow> nat \<Rightarrow> nat \<Rightarrow> ('h, unit) drv" where
  "readx_poll_timeout_atomic op cond sleep_us timeout_us z =
     (case poll_loop (timeout_us div sleep_us) op cond z of
        (ok, z') \<Rightarrow> (if ok then Inr () else Inl (Errno (- ETIMEDOUT)), z'))"

section \<open>Synthesizer frequency\<close>

text \<open>
  \<^verbatim>\<open>_zl3073x_ptp_get_synth_freq\<close> (a leading underscore of a source name is written as
  a trailing prime). \<^verbatim>\<open>base\<close>, \<^verbatim>\<open>numerator\<close> and \<^verbatim>\<open>denomitor\<close> are
  \<^verbatim>\<open>u16\<close> and \<^verbatim>\<open>mult\<close> is \<^verbatim>\<open>u32\<close>, so C evaluates
  \<^verbatim>\<open>base * mult * numerator / denomitor\<close> in \<^verbatim>\<open>unsigned int\<close> and only the
  quotient is widened to the \<^verbatim>\<open>u64\<close> result.
\<close>

definition zl3073x_ptp_get_synth_freq' :: "u8 \<Rightarrow> ('h, u64) drv" where
  "zl3073x_ptp_get_synth_freq' synth =
     seq (zl3073x_write DPLL_SYNTH_MB_MASK [BIT (unat synth), 0, 0, 0] DPLL_SYNTH_MB_MASK_SIZE) (\<lambda>_.
     seq (zl3073x_write DPLL_SYNTH_MB_SEM [DPLL_SYNTH_MB_SEM_RD, 0, 0, 0] DPLL_SYNTH_MB_SEM_SIZE) (\<lambda>_.
     seq (readx_poll_timeout_atomic zl3073x_ptp_synth_mb_sem
            (\<lambda>val. uint DPLL_SYNTH_MB_SEM_RD AND val = 0) READ_SLEEP_US READ_TIMEOUT_US) (\<lambda>_.
     seq (zl3073x_read DPLL_SYNTH_FREQ_BASE DPLL_SYNTH_FREQ_BASE_SIZE) (\<lambda>buf.
       let base = (push_bit 8 (ucast (buf ! 0)) OR ucast (buf ! 1) :: u16) in
     seq (zl3073x_read DPLL_SYNTH_FREQ_MULT DPLL_SYNTH_FREQ_MULT_SIZE) (\<lambda>buf.
       let mult = (push_bit 24 (ucast (buf ! 0)) OR push_bit 16 (ucast (buf ! 1)) OR
                   push_bit 8 (ucast (buf ! 2)) OR ucast (buf ! 3) :: u32) in
     seq (zl3073x_read DPLL_SYNTH_FREQ_M DPLL_SYNTH_FREQ_M_SIZE) (\<lambda>buf.
       let numerator = (push_bit 8 (ucast (buf ! 0)) OR ucast (buf ! 1) :: u16) in
     seq (zl3073x_read DPLL_SYNTH_FREQ_N DPLL_SYNTH_FREQ_N_SIZE) (\<lambda>buf.
       let denomitor = (push_bit 8 (ucast (buf ! 0)) OR ucast (buf ! 1) :: u16) in
       if denomitor = 0 then divide_fault
       else ret_ok (ucast ((ucast base * mult * ucast numerator) div (ucast denomitor :: u32))))))))))"

section \<open>Time of day\<close>

text \<open>
  \<^verbatim>\<open>struct timespec64\<close>. Both fields are 64-bit signed in C; the values the driver
  builds (48 bits of seconds, 32 bits of nanoseconds, plus a delta of at most 64 bits
  of nanoseconds) stay far inside that range, so they are kept as integers.
\<close>

record timespec64 =
  tv_sec :: int
  tv_nsec :: int

text \<open>The kernel's \<^verbatim>\<open>set_normalized_timespec64\<close>, \<^verbatim>\<open>ns_to_timespec64\<close> and
  \<^verbatim>\<open>timespec64_add\<close>: the nanoseconds end in \<open>[0, NSEC_PER_SEC)\<close>.\<close>

definition set_normalized_timespec64 :: "int \<Rightarrow> int \<Rightarrow> timespec64" where
  "set_normalized_timespec64 sec nsec =
     \<lparr>tv_sec = sec + nsec div NSEC_PER_SEC, tv_nsec = nsec mod NSEC_PER_SEC\<rparr>"

definition ns_to_timespec64 :: "int \<Rightarrow> timespec64" where
  "ns_to_timespec64 nsec = \<lparr>tv_sec = nsec div NSEC_PER_SEC, tv_nsec = nsec mod NSEC_PER_SEC\<rparr>"

definition timespec64_add :: "timespec64 \<Rightarrow> timespec64 \<Rightarrow> timespec64" where
  "timespec64_add lhs rhs =
     set_normalized_timespec64 (tv_sec lhs + tv_sec rhs) (tv_nsec lhs + tv_nsec rhs)"

definition zl3073x_ptp_timestamp_to_bytearray :: "timespec64 \<Rightarrow> u8 list \<times> u8 list" where
  "zl3073x_ptp_timestamp_to_bytearray ts =
     ([word_of_int (drop_bit 0 (tv_sec ts)), word_of_int (drop_bit 8 (tv_sec ts)),
       word_of_int (drop_bit 16 (tv_sec ts)), word_of_int (drop_bit 24 (tv_sec ts)),
       word_of_int (drop_bit 32 (tv_sec ts)), word_of_int (drop_bit 40 (tv_sec ts))],
      [word_of_int (drop_bit 0 (tv_nsec ts)), word_of_int (drop_bit 8 (tv_nsec ts)),
       word_of_int (drop_bit 16 (tv_nsec ts)), word_of_int (drop_bit 24 (tv_nsec ts)),
       0, 0])"

definition zl3073x_ptp_bytearray_to_timestamp :: "u8 list \<Rightarrow> u8 list \<Rightarrow> timespec64" where
  "zl3073x_ptp_bytearray_to_timestamp sec nsec =
     (let s = foldl (\<lambda>acc i. push_bit 8 acc OR uint (sec ! i)) (uint (sec ! 0)) [1..<DPLL_TOD_SEC_SIZE];
          n = foldl (\<lambda>acc i. push_bit 8 acc OR uint (nsec ! i)) (uint (nsec ! 0)) [1..<DPLL_TOD_NSEC_SIZE - 2]
      in set_normalized_timespec64 s n)"

definition tod_sem_clear :: "int \<Rightarrow> bool" where
  "tod_sem_clear val = (DPLL_TOD_CTRL_SEM AND val = 0)"

definition zl3073x_ptp_gettime64' :: "u8 \<Rightarrow> zl3073x_tod_ctrl_cmd_t \<Rightarrow> ('h, timespec64) drv" where
  "zl3073x_ptp_gettime64' index cmd =
     seq (readx_poll_timeout_atomic (zl3073x_ptp_tod_sem index) tod_sem_clear
            READ_SLEEP_US READ_TIMEOUT_US) (\<lambda>_.
     seq (zl3073x_write (DPLL_TOD_CTRL index) [word_of_int DPLL_TOD_CTRL_SEM OR tod_ctrl_cmd_val cmd] 1) (\<lambda>_.
     seq (readx_poll_timeout_atomic (zl3073x_ptp_tod_sem index) tod_sem_clear
            READ_SLEEP_US READ_TIMEOUT_US) (\<lambda>_.
     seq (zl3073x_read (DPLL_TOD_SEC index) DPLL_TOD_SEC_SIZE) (\<lambda>sec.
     seq (zl3073x_read (DPLL_TOD_NSEC index) DPLL_TOD_NSEC_SIZE) (\<lambda>nsec.
       ret_ok (zl3073x_ptp_bytearray_to_timestamp sec nsec))))))"

definition zl3073x_ptp_settime64' :: "u8 \<Rightarrow> timespec64 \<Rightarrow> zl3073x_tod_ctrl_cmd_t \<Rightarrow> ('h, unit) drv" where
  "zl3073x_ptp_settime64' index ts cmd =
     seq (readx_poll_timeout_atomic (zl3073x_ptp_tod_sem index) tod_sem_clear
            READ_SLEEP_US READ_TIMEOUT_US) (\<lambda>_.
       case zl3073x_ptp_timestamp_to_bytearray ts of (sec, nsec) \<Rightarrow>
     seq (zl3073x_write (DPLL_TOD_SEC index) sec DPLL_TOD_SEC_SIZE) (\<lambda>_.
     seq (zl3073x_write (DPLL_TOD_NSEC index) nsec DPLL_TOD_NSEC_SIZE) (\<lambda>_.
       zl3073x_write (DPLL_TOD_CTRL index) [word_of_int DPLL_TOD_CTRL_SEM OR tod_ctrl_cmd_val cmd] 1)))"

text \<open>
  The \<^verbatim>\<open>do { ... } while (true)\<close> of \<^verbatim>\<open>zl3073x_ptp_wait_sec_rollover\<close>, with
  \<^verbatim>\<open>init_ts\<close> as the loop variable. The source has no other exit than the two
  \<^verbatim>\<open>goto out\<close> and the \<^verbatim>\<open>break\<close>, so the loop is a partial function: \<open>None\<close>
  is a call that never returns. \<^verbatim>\<open>msleep(10)\<close> only passes time.
\<close>

partial_function (option) zl3073x_ptp_wait_sec_rollover_loop ::
    "u8 \<Rightarrow> timespec64 \<Rightarrow> 'h zl3073x \<Rightarrow> ((error + unit) \<times> 'h zl3073x) option" where
  "zl3073x_ptp_wait_sec_rollover_loop index init_ts z =
     (case readx_poll_timeout_atomic (zl3073x_ptp_tod_sem index) tod_sem_clear
             READ_SLEEP_US READ_TIMEOUT_US z of
        (Inl e, z1) \<Rightarrow> Some (Inl e, z1)
      | (Inr _, z1) \<Rightarrow>
          (case zl3073x_ptp_gettime64' index ZL3073X_TOD_CTRL_CMD_READ_NEXT_1HZ z1 of
             (Inl e, z2) \<Rightarrow> Some (Inl e, z2)
           | (Inr ts, z2) \<Rightarrow>
               if tv_sec init_ts = 0 then zl3073x_ptp_wait_sec_rollover_loop index ts z2
               else if tv_sec init_ts < tv_sec ts then Some (Inr (), z2)
               else zl3073x_ptp_wait_sec_rollover_loop index init_ts z2))"

definition zl3073x_ptp_wait_sec_rollover ::
    "u8 \<Rightarrow> 'h zl3073x \<Rightarrow> ((error + unit) \<times> 'h zl3073x) option" where
  "zl3073x_ptp_wait_sec_rollover index z =
     zl3073x_ptp_wait_sec_rollover_loop index \<lparr>tv_sec = 0, tv_nsec = 0\<rparr> z"

section \<open>Stepping the clock\<close>

text \<open>
  The kernel's \<^verbatim>\<open>__ffs\<close> (index of the lowest set bit). Its result for a zero word
  is undefined in the kernel; \<open>ffs_of_zero\<close> is what an x86-64 machine gives for a
  64-bit word, 64. Only the address of one read of \<^verbatim>\<open>_zl3073x_ptp_steptime\<close>
  depends on it, in a call with an empty output mask.
\<close>

fun ffs_from :: "nat \<Rightarrow> nat \<Rightarrow> u16 \<Rightarrow> nat" where
  "ffs_from 0 i w = i"
| "ffs_from (Suc k) i w = (if bit w i then i else ffs_from k (Suc i) w)"

definition ffs_of_zero :: nat where
  "ffs_of_zero = 64"

definition ffs' :: "u16 \<Rightarrow> nat" where
  "ffs' w = (if w = 0 then ffs_of_zero else ffs_from 16 0 w)"

definition phase_step_idle :: "int \<Rightarrow> bool" where
  "phase_step_idle val = (DPLL_OUTPUT_PHASE_STEP_CTRL_OP_MASK AND val = 0)"

text \<open>Reading \<^verbatim>\<open>dpll->perout_mask\<close>.\<close>

definition get_perout_mask :: "u8 \<Rightarrow> ('h, u16) drv" where
  "get_perout_mask index z = (Inr (perout_mask z index), z)"

definition zl3073x_ptp_steptime' :: "u8 \<Rightarrow> s64 \<Rightarrow> ('h, unit) drv" where
  "zl3073x_ptp_steptime' index delta =
     seq (readx_poll_timeout_atomic zl3073x_ptp_phase_ctrl_op phase_step_idle
            READ_SLEEP_US READ_TIMEOUT_US) (\<lambda>_.
     seq (zl3073x_write DPLL_OUTPUT_PHASE_STEP_NUMBER [1, 0, 0, 0] DPLL_OUTPUT_PHASE_STEP_NUMBER_SIZE) (\<lambda>_.
     seq (get_perout_mask index) (\<lambda>mask.
     seq (zl3073x_read (DPLL_OUTPUT_CTRL (ffs' mask)) DPLL_OUTPUT_CTRL_SIZE) (\<lambda>buf.
       let synth = DPLL_OUTPUT_CTRL_SYNTH_SEL_GET (buf ! 0) in
     seq (zl3073x_ptp_get_synth_freq' synth) (\<lambda>synthFreq.
       let register_units = (word_of_int (sint (delta * synthFreq) sdiv NSEC_PER_SEC) :: s32) in
     seq (zl3073x_write DPLL_OUTPUT_PHASE_STEP_DATA
            [ucast register_units, ucast (signed_drop_bit 8 register_units),
             ucast (signed_drop_bit 16 register_units), ucast (signed_drop_bit 24 register_units)]
            DPLL_OUTPUT_PHASE_STEP_DATA_SIZE) (\<lambda>_.
     seq (get_perout_mask index) (\<lambda>mask.
     seq (zl3073x_write DPLL_OUTPUT_PHASE_STEP_MASK [ucast mask, 0, 0, 0]
            DPLL_OUTPUT_PHASE_STEP_MASK_SIZE) (\<lambda>_.
       zl3073x_write DPLL_OUTPUT_PHASE_STEP_CTRL
         [DPLL_OUTPUT_PHASE_STEP_CTRL_DPLL index OR
          DPLL_OUTPUT_PHASE_STEP_CTRL_OP DPLL_OUTPUT_PAHSE_STEP_CTRL_OP_WRITE OR
          DPLL_OUTPUT_PHASE_STEP_CTRL_TOD_STEP, 0, 0, 0]
         DPLL_OUTPUT_PHASE_STEP_CTRL_SIZE))))))))"

text \<open>
  \<^verbatim>\<open>zl3073x_ptp_adjtime\<close>. \<^verbatim>\<open>div_s64_rem\<close> truncates towards zero, so the
  remainder has the sign of \<^verbatim>\<open>delta\<close>.
\<close>

definition zl3073x_ptp_adjtime ::
    "u8 \<Rightarrow> s64 \<Rightarrow> 'h zl3073x \<Rightarrow> ((error + unit) \<times> 'h zl3073x) option" where
  "zl3073x_ptp_adjtime index delta z =
     (let delta_sec = sint delta sdiv NSEC_PER_SEC;
          delta_sec_rem = (word_of_int (sint delta smod NSEC_PER_SEC) :: s32);
          delta_sec_in_ns = delta_sec * NSEC_PER_SEC;
          delta_sub_sec_in_ns = (scast delta_sec_rem :: s64)
      in if sint delta \<ge> NSEC_PER_SEC \<or> sint delta \<le> - NSEC_PER_SEC then
           (case zl3073x_ptp_wait_sec_rollover index z of
              None \<Rightarrow> None
            | Some (Inl e, z1) \<Rightarrow> Some (Inl e, z1)
            | Some (Inr _, z1) \<Rightarrow> Some (
                seq (zl3073x_ptp_gettime64' index ZL3073X_TOD_CTRL_CMD_READ_NEXT_1HZ) (\<lambda>ts.
                seq (zl3073x_ptp_settime64' index
                       (timespec64_add ts (ns_to_timespec64 delta_sec_in_ns))
                       ZL3073X_TOD_CTRL_CMD_WRITE_NEXT_1HZ) (\<lambda>_.
                seq (readx_poll_timeout_atomic (zl3073x_ptp_tod_sem index) tod_sem_clear
                       READ_SLEEP_US READ_TIMEOUT_US) (\<lambda>_.
                  zl3073x_ptp_steptime' index delta_sub_sec_in_ns))) z1))
         else Some (zl3073x_ptp_steptime' index delta_sub_sec_in_ns z))"

text \<open>\<^verbatim>\<open>zl3073x_ptp_adjfine\<close>; \<^verbatim>\<open>long scaled_ppm\<close> is 64 bits wide.\<close>

definition zl3073x_ptp_adjfine :: "u8 \<Rightarrow> s64 \<Rightarrow> ('h, unit) drv" where
  "zl3073x_ptp_adjfine index scaled_ppm =
     (let scaled_ppm_s64 = scaled_ppm in
      if scaled_ppm_s64 = 0 then ret_ok ()
      else
        let ref = ZL3073X_1PPM_FORMAT * signed_drop_bit 16 scaled_ppm_s64;
            ref = ref + signed_drop_bit 16 (ZL3073X_1PPM_FORMAT * (0xffff AND scaled_ppm_s64));
            ref = NOT ref + 1
        in zl3073x_write (DPLL_DF_OFFSET index)
             [ucast ref, ucast (signed_drop_bit 8 ref), ucast (signed_drop_bit 16 ref),
              ucast (signed_drop_bit 24 ref), ucast (signed_drop_bit 32 ref),
              ucast (signed_drop_bit 40 ref)] 6)"

section \<open>Reference priority\<close>


section \<open>Output phase compensation\<close>

definition zl3073x_synth_get :: "nat \<Rightarrow> ('h, u8) drv" where
  "zl3073x_synth_get output_index =
     seq (zl3073x_read (DPLL_OUTPUT_CTRL output_index) DPLL_OUTPUT_CTRL_SIZE) (\<lambda>buf.
       ret_ok (DPLL_OUTPUT_CTRL_SYNTH_SEL_GET (buf ! 0)))"

text \<open>
  C's \<^verbatim>\<open>a / b\<close> and \<^verbatim>\<open>a % b\<close> on \<^verbatim>\<open>int\<close> fault for \<^verbatim>\<open>b == 0\<close> and for
  \<^verbatim>\<open>INT_MIN / -1\<close>.
\<close>

definition c_div_faults :: "s32 \<Rightarrow> s32 \<Rightarrow> bool" where
  "c_div_faults a b \<longleftrightarrow> b = 0 \<or> (sint a = - (2 ^ 31) \<and> sint b = - 1)"

text \<open>
  \<^verbatim>\<open>(int)div_u64(PSEC_PER_SEC, (freq*2))\<close>: \<^verbatim>\<open>div_u64\<close> takes its divisor as
  \<^verbatim>\<open>u32\<close>, and the quotient is cut to \<^verbatim>\<open>int\<close>. \<open>None\<close> is the division by zero.
\<close>

definition halfSynthCycle_of :: "u64 \<Rightarrow> s32 option" where
  "halfSynthCycle_of freq =
     (let divisor = (ucast (freq * 2) :: u32) in
      if divisor = 0 then None else Some (word_of_int (PSEC_PER_SEC div uint divisor)))"

text \<open>
  \<^verbatim>\<open>*phaseAdj\<close> is the caller's variable: \<open>phaseAdj\<close> is its value at the call, and
  the result is its value at the return (the source leaves it alone when the register
  reads zero).
\<close>

definition zl3073x_dpll_get_output_phase_adjust :: "u8 \<Rightarrow> s32 \<Rightarrow> ('h, s32) drv" where
  "zl3073x_dpll_get_output_phase_adjust outputIndex phaseAdj =
     seq (zl3073x_synth_get (unat outputIndex)) (\<lambda>synth.
     seq (zl3073x_ptp_get_synth_freq' synth) (\<lambda>freq.
       case halfSynthCycle_of freq of None \<Rightarrow> divide_fault | Some halfSynthCycle \<Rightarrow>
     seq (zl3073x_write DPLL_OUTPUT_MB_MASK [BIT (unat outputIndex div 2), 0, 0, 0]
            DPLL_OUTPUT_MB_MASK_SIZE) (\<lambda>_.
     seq (zl3073x_write DPLL_OUTPUT_MB_SEM [DPLL_OUTPUT_MB_SEM_RD, 0, 0, 0] DPLL_OUTPUT_MB_SEM_SIZE) (\<lambda>_.
     seq (readx_poll_timeout_atomic zl3073x_dpll_mb_sem
            (\<lambda>val. uint DPLL_OUTPUT_MB_SEM_RD AND val = 0) READ_SLEEP_US READ_TIMEOUT_US) (\<lambda>_.
     seq (zl3073x_read DPLL_OUTPUT_PHASE_COMPENSATION_REG DPLL_OUTPUT_PHASE_COMPENSATION_REG_SIZE) (\<lambda>buf.
       let currentPhaseOffsetComp =
             (push_bit 24 (ucast (buf ! 0)) OR push_bit 16 (ucast (buf ! 1)) OR
              push_bit 8 (ucast (buf ! 2)) OR ucast (buf ! 3) :: s32)
       in if currentPhaseOffsetComp \<noteq> 0
          then ret_ok (NOT (currentPhaseOffsetComp * halfSynthCycle) + 1)
          else ret_ok phaseAdj))))))"

text \<open>
  After \<^verbatim>\<open>mutex_lock\<close>, every path of \<^verbatim>\<open>zl3073x_dpll_set_output_phase_adjust\<close>
  ends at \<^verbatim>\<open>out: mutex_unlock(zl3073x->lock); return 0;\<close>.
\<close>

definition return_0_at_out :: "('h, 'a) drv \<Rightarrow> ('h, unit) drv" where
  "return_0_at_out m z =
     (case m z of (Inl DivideError, z') \<Rightarrow> (Inl DivideError, z') | (_, z') \<Rightarrow> (Inr (), z'))"

definition zl3073x_dpll_set_output_phase_adjust :: "u8 \<Rightarrow> s32 \<Rightarrow> ('h, unit) drv" where
  "zl3073x_dpll_set_output_phase_adjust outputIndex phaseOffsetComp32 =
     seq (zl3073x_synth_get (unat outputIndex)) (\<lambda>synth.
     seq (zl3073x_ptp_get_synth_freq' synth) (\<lambda>freq.
       case halfSynthCycle_of freq of None \<Rightarrow> divide_fault | Some halfSynthCycle \<Rightarrow>
       if c_div_faults halfSynthCycle phaseOffsetComp32 then divide_fault
       else if sint halfSynthCycle smod sint phaseOffsetComp32 \<noteq> 0 then ret_err (- ERANGE)
       else return_0_at_out (
         seq (zl3073x_write DPLL_OUTPUT_MB_MASK [BIT (unat outputIndex div 2), 0, 0, 0]
                DPLL_OUTPUT_MB_MASK_SIZE) (\<lambda>_.
           if c_div_faults phaseOffsetComp32 halfSynthCycle then divide_fault
           else
             let phaseOffsetComp32 = (word_of_int (sint phaseOffsetComp32 sdiv sint halfSynthCycle) :: s32);
                 phaseOffsetComp32 = NOT phaseOffsetComp32 + 1
             in
         seq (zl3073x_write DPLL_OUTPUT_PHASE_COMPENSATION_REG
                [ucast phaseOffsetComp32, ucast (signed_drop_bit 8 phaseOffsetComp32),
                 ucast (signed_drop_bit 16 phaseOffsetComp32),
                 ucast (signed_drop_bit 24 phaseOffsetComp32)]
                DPLL_OUTPUT_PHASE_COMPENSATION_REG_SIZE) (\<lambda>_.
         seq (zl3073x_write DPLL_OUTPUT_MB_SEM [DPLL_REF_MB_SEM_WR, 0, 0, 0] DPLL_OUTPUT_MB_SEM_SIZE) (\<lambda>_.
           readx_poll_timeout_atomic zl3073x_dpll_mb_sem
             (\<lambda>val. uint DPLL_OUTPUT_MB_SEM_WR AND val = 0) READ_SLEEP_US READ_TIMEOUT_US))))))"

section \<open>Periodic output\<close>

text \<open>\<^verbatim>\<open>enum zl3073x_output_mode_signal_format_t\<close>, as the register holds it.\<close>

definition ZL3073X_BOTH_DISABLED :: u8 where "ZL3073X_BOTH_DISABLED = 0x0"
definition ZL3073X_BOTH_ENABLED :: u8 where "ZL3073X_BOTH_ENABLED = 0x4"
definition ZL3073X_P_ENABLE :: u8 where "ZL3073X_P_ENABLE = 0x5"
definition ZL3073X_N_ENABLE :: u8 where "ZL3073X_N_ENABLE = 0x6"

definition DPLL_OUTPUT_MODE_SIGNAL_FORMAT :: "u8 \<Rightarrow> u8" where
  "DPLL_OUTPUT_MODE_SIGNAL_FORMAT val = push_bit 4 val"
definition DPLL_OUTPUT_MODE_SIGNAL_FORMAT_GET :: "u8 \<Rightarrow> u8" where
  "DPLL_OUTPUT_MODE_SIGNAL_FORMAT_GET val = drop_bit 4 (val AND GENMASK 7 4)"

definition zl3073x_ptp_disable_pin' :: "u8 \<Rightarrow> u8 \<Rightarrow> u8" where
  "zl3073x_ptp_disable_pin' current_mode pin =
     (if current_mode = ZL3073X_P_ENABLE then
        (if ZL3073X_P_PIN pin then ZL3073X_BOTH_DISABLED else ZL3073X_BOTH_DISABLED)
      else if current_mode = ZL3073X_N_ENABLE then
        (if ZL3073X_N_PIN pin then ZL3073X_BOTH_DISABLED else ZL3073X_BOTH_DISABLED)
      else if current_mode = ZL3073X_BOTH_ENABLED then
        (if ZL3073X_P_PIN pin then ZL3073X_N_ENABLE else ZL3073X_P_ENABLE)
      else ZL3073X_BOTH_DISABLED)"

definition zl3073x_ptp_enable_pin' :: "u8 \<Rightarrow> u8 \<Rightarrow> u8" where
  "zl3073x_ptp_enable_pin' current_mode pin =
     (if current_mode = ZL3073X_P_ENABLE then
        (if ZL3073X_N_PIN pin then ZL3073X_BOTH_ENABLED else ZL3073X_BOTH_ENABLED)
      else if current_mode = ZL3073X_N_ENABLE then
        (if ZL3073X_P_PIN pin then ZL3073X_BOTH_ENABLED else ZL3073X_BOTH_ENABLED)
      else if current_mode = ZL3073X_BOTH_DISABLED then
        (if ZL3073X_P_PIN pin then ZL3073X_P_ENABLE else ZL3073X_N_ENABLE)
      else ZL3073X_BOTH_ENABLED)"

text \<open>\<^verbatim>\<open>struct ptp_clock_time\<close>, \<^verbatim>\<open>struct ptp_perout_request\<close> and
  \<^verbatim>\<open>struct ptp_clock_request\<close> of the PTP user interface.\<close>

record ptp_clock_time =
  ct_sec :: s64
  ct_nsec :: u32

record ptp_perout_request =
  perout_start :: ptp_clock_time
  perout_period :: ptp_clock_time
  perout_index :: u32
  perout_flags :: u32
  perout_on :: ptp_clock_time

datatype ptp_clock_request =
  PTP_CLK_REQ_EXTTS
| PTP_CLK_REQ_PEROUT ptp_perout_request
| PTP_CLK_REQ_PPS

definition PTP_PEROUT_DUTY_CYCLE :: u32 where "PTP_PEROUT_DUTY_CYCLE = BIT 1"

definition set_perout_mask :: "u8 \<Rightarrow> u16 \<Rightarrow> ('h, unit) drv" where
  "set_perout_mask index m z = (Inr (), z\<lparr>perout_mask := (perout_mask z)(index := m)\<rparr>)"

definition zl3073x_ptp_perout_disable :: "u8 \<Rightarrow> ptp_perout_request \<Rightarrow> ('h, unit) drv" where
  "zl3073x_ptp_perout_disable index perout z =
     (let pin = ptp_find_pin z index (perout_index perout) in
      if pin = - 1 \<or> pin \<ge> ZL3073X_MAX_OUTPUT_PINS then ret_err (- EINVAL) z
      else
       (seq (zl3073x_write DPLL_OUTPUT_MB_MASK [BIT (nat (pin sdiv 2)), 0] DPLL_OUTPUT_MB_MASK_SIZE) (\<lambda>_.
        seq (zl3073x_write DPLL_OUTPUT_MB_SEM [DPLL_OUTPUT_MB_SEM_RD, 0] DPLL_OUTPUT_MB_SEM_SIZE) (\<lambda>_.
        seq (readx_poll_timeout_atomic zl3073x_ptp_output_mb_sem
               (\<lambda>val. uint DPLL_OUTPUT_MB_SEM_RD AND val = 0) READ_SLEEP_US READ_TIMEOUT_US) (\<lambda>_.
        seq (zl3073x_read DPLL_OUTPUT_MODE DPLL_OUTPUT_MODE_SIZE) (\<lambda>buf.
          let mode = DPLL_OUTPUT_MODE_SIGNAL_FORMAT_GET (buf ! 0);
              b0 = (buf ! 0) AND NOT DPLL_OUTPUT_MODE_SIGNAL_FORMAT_MASK;
              b0 = b0 OR DPLL_OUTPUT_MODE_SIGNAL_FORMAT (zl3073x_ptp_disable_pin' mode (word_of_int pin))
          in
        seq (zl3073x_write DPLL_OUTPUT_MODE [b0, 0] DPLL_OUTPUT_MODE_SIZE) (\<lambda>_.
        seq (zl3073x_write DPLL_OUTPUT_MB_SEM [DPLL_OUTPUT_MB_SEM_WR, 0] DPLL_OUTPUT_MB_SEM_SIZE) (\<lambda>_.
        seq (readx_poll_timeout_atomic zl3073x_ptp_output_mb_sem
               (\<lambda>val. uint DPLL_OUTPUT_MB_SEM_WR AND val = 0) READ_SLEEP_US READ_TIMEOUT_US) (\<lambda>_.
        seq (get_perout_mask index) (\<lambda>mask.
          set_perout_mask index (mask AND NOT (BIT (nat (pin sdiv 2)))))))))))))
       z)"

definition zl3073x_ptp_perout_enable :: "u8 \<Rightarrow> ptp_perout_request \<Rightarrow> ('h, unit) drv" where
  "zl3073x_ptp_perout_enable index perout z =
     (let pin = ptp_find_pin z index (perout_index perout) in
      if pin = - 1 \<or> pin \<ge> ZL3073X_MAX_OUTPUT_PINS then ret_err (- EINVAL) z
      else
       (seq (zl3073x_write DPLL_OUTPUT_MB_MASK [BIT (nat (pin sdiv 2)), 0, 0, 0] DPLL_OUTPUT_MB_MASK_SIZE) (\<lambda>_.
        seq (zl3073x_write DPLL_OUTPUT_MB_SEM [DPLL_OUTPUT_MB_SEM_RD, 0, 0, 0] DPLL_OUTPUT_MB_SEM_SIZE) (\<lambda>_.
        seq (readx_poll_timeout_atomic zl3073x_ptp_output_mb_sem
               (\<lambda>val. uint DPLL_OUTPUT_MB_SEM_RD AND val = 0) READ_SLEEP_US READ_TIMEOUT_US) (\<lambda>_.
        seq (zl3073x_read DPLL_OUTPUT_MODE DPLL_OUTPUT_MODE_SIZE) (\<lambda>buf.
          let mode = DPLL_OUTPUT_MODE_SIGNAL_FORMAT_GET (buf ! 0);
              b0 = (buf ! 0) AND NOT DPLL_OUTPUT_MODE_SIGNAL_FORMAT_MASK;
              b0 = b0 OR DPLL_OUTPUT_MODE_SIGNAL_FORMAT (zl3073x_ptp_enable_pin' mode (word_of_int pin))
          in
        seq (zl3073x_write DPLL_OUTPUT_MODE [b0, 0, 0, 0] DPLL_OUTPUT_MODE_SIZE) (\<lambda>_.
        seq (zl3073x_write DPLL_OUTPUT_GPO_EN [0, 0, 0, 0] DPLL_OUTPUT_GPO_EN_SIZE) (\<lambda>_.
        seq (zl3073x_read (DPLL_OUTPUT_CTRL (nat (pin sdiv 2))) DPLL_OUTPUT_CTRL_SIZE) (\<lambda>buf.
          let synth = DPLL_OUTPUT_CTRL_SYNTH_SEL_GET (buf ! 0) in
        seq (zl3073x_ptp_get_synth_freq' synth) (\<lambda>freq.
        seq (zl3073x_write DPLL_OUTPUT_DIV
               [ucast freq, ucast (drop_bit 8 freq), ucast (drop_bit 16 freq), ucast (drop_bit 24 freq)]
               DPLL_OUTPUT_DIV_SIZE) (\<lambda>_.
        seq (if perout_flags perout AND PTP_PEROUT_DUTY_CYCLE \<noteq> 0 then
               if ct_sec (perout_on perout) \<noteq> 0 then ret_err (- EINVAL)
               else if ct_nsec (perout_on perout) = 0 then divide_fault
               else
                 let width = (word_of_int (NSEC_PER_SEC div uint (ct_nsec (perout_on perout))) :: u32) in
                 if width = 0 then divide_fault
                 else
                   let width = (ucast freq :: u32) div width;
                       width = width * 2
                   in zl3073x_write DPLL_OUTPUT_WIDTH
                        [ucast width, ucast (drop_bit 8 width), ucast (drop_bit 16 width),
                         ucast (drop_bit 24 width)]
                        DPLL_OUTPUT_WIDTH_SIZE
             else ret_ok ()) (\<lambda>_.
        seq (zl3073x_write DPLL_OUTPUT_MB_SEM [DPLL_OUTPUT_MB_SEM_WR, 0, 0, 0] DPLL_OUTPUT_MB_SEM_SIZE) (\<lambda>_.
        seq (readx_poll_timeout_atomic zl3073x_ptp_output_mb_sem
               (\<lambda>val. uint DPLL_OUTPUT_MB_SEM_WR AND val = 0) READ_SLEEP_US READ_TIMEOUT_US) (\<lambda>_.
        seq (get_perout_mask index) (\<lambda>mask.
          set_perout_mask index (mask OR BIT (nat (pin sdiv 2)))))))))))))))))
       z)"

definition zl3073x_ptp_enable :: "u8 \<Rightarrow> ptp_clock_request \<Rightarrow> int \<Rightarrow> ('h, unit) drv" where
  "zl3073x_ptp_enable index rq on =
     (case rq of
        PTP_CLK_REQ_PEROUT perout \<Rightarrow>
          if on = 0 then zl3073x_ptp_perout_disable index perout
          else if ct_nsec (perout_start perout) \<noteq> 0 \<or> ct_sec (perout_period perout) \<noteq> 1 \<or>
                  ct_nsec (perout_period perout) \<noteq> 0
          then ret_err (- ERANGE)
          else zl3073x_ptp_perout_enable index perout
      | _ \<Rightarrow> ret_err (- EOPNOTSUPP))"

section \<open>Reference input frequency\<close>

text \<open>The \<^verbatim>\<open>switch\<close> of \<^verbatim>\<open>zl3073x_dpll_set_input_frequency\<close>:
  \<open>(baseFreq, multiplier, numerator, denominator)\<close>, each a \<^verbatim>\<open>u32\<close> variable.\<close>

definition input_frequency_table :: "u64 \<Rightarrow> (u32 \<times> u32 \<times> u32 \<times> u32) option" where
  "input_frequency_table frequency =
     (if frequency = 1 then Some (0x0001, 0x0001, 0x0001, 0x0001)
      else if frequency = 25 then Some (0x0001, 0x0019, 0x0001, 0x0001)
      else if frequency = 100 then Some (0x0001, 0x0064, 0x0001, 0x0001)
      else if frequency = 1000 then Some (0x0001, 0x03E8, 0x0001, 0x0001)
      else if frequency = 10000000 then Some (0x2710, 0x03E8, 0x0001, 0x0001)
      else if frequency = 25000000 then Some (0x61A8, 0x03E8, 0x0001, 0x0001)
      else if frequency = 62500000 then Some (0x4E20, 0x0C35, 0x0001, 0x0001)
      else if frequency = 78125000 then Some (0x1E848, 0x0271, 0x0001, 0x0001)
      else if frequency = 100000000 then Some (0x4E20, 0x1388, 0x0001, 0x0001)
      else None)"

definition zl3073x_dpll_set_input_frequency :: "u8 \<Rightarrow> u64 \<Rightarrow> ('h, unit) drv" where
  "zl3073x_dpll_set_input_frequency refId frequency =
     (case input_frequency_table frequency of
        None \<Rightarrow> ret_err (- EOPNOTSUPP)
      | Some (baseFreq, multiplier, numerator, denominator) \<Rightarrow>
          seq (zl3073x_write DPLL_REF_MB_MASK [BIT (unat refId), 0] DPLL_DPLL_MB_MASK_SIZE) (\<lambda>_.
          seq (zl3073x_write DPLL_REF_FREQ_BASE_REG [ucast baseFreq, ucast (drop_bit 8 baseFreq)]
                 DPLL_REF_FREQ_BASE_REG_SIZE) (\<lambda>_.
          seq (zl3073x_write DPLL_REF_FREQ_MULT_REG [ucast multiplier, ucast (drop_bit 8 multiplier)]
                 DPLL_REF_FREQ_MULT_REG_SIZE) (\<lambda>_.
          seq (zl3073x_write DPLL_REF_FREQ_RATIO_M_REG [ucast numerator, ucast (drop_bit 8 numerator)]
                 DPLL_REF_FREQ_RATIO_M_REG_SIZE) (\<lambda>_.
          seq (zl3073x_write DPLL_REF_FREQ_RATIO_N_REG [ucast denominator, ucast (drop_bit 8 denominator)]
                 DPLL_REF_FREQ_RATIO_N_REG_SIZE) (\<lambda>_.
          seq (zl3073x_write DPLL_REF_MB_SEM [DPLL_REF_MB_SEM_WR, 0] DPLL_REF_MB_SEM_SIZE) (\<lambda>_.
            readx_poll_timeout_atomic zl3073x_dpll_mb_sem
              (\<lambda>val. uint DPLL_REF_MB_SEM_WR AND val = 0) READ_SLEEP_US READ_TIMEOUT_US)))))))"

text \<open>\<^verbatim>\<open>inputFreq = baseFreq * multiplier * numerator / denominator\<close> is computed in
  \<^verbatim>\<open>u32\<close>; the second \<^verbatim>\<open>switch\<close> maps it to the frequency reported.\<close>

definition input_frequency_of :: "u32 \<Rightarrow> u64 option" where
  "input_frequency_of inputFreq =
     (if inputFreq = 1 then Some 1
      else if inputFreq = 25 then Some 25
      else if inputFreq = 100 then Some 100
      else if inputFreq = 1000 then Some 1000
      else if inputFreq = 10000000 then Some 10000000
      else if inputFreq = 25000000 then Some 25000000
      else if inputFreq = 62500000 then Some 62500000
      else if inputFreq = 78125000 then Some 78125000
      else if inputFreq = 100000000 then Some 100000000
      else None)"

definition zl3073x_dpll_get_input_frequency :: "u8 \<Rightarrow> ('h, u64) drv" where
  "zl3073x_dpll_get_input_frequency refId =
     seq (zl3073x_write DPLL_REF_MB_MASK [BIT (unat refId), 0] DPLL_DPLL_MB_MASK_SIZE) (\<lambda>_.
     seq (zl3073x_write DPLL_REF_MB_SEM [DPLL_REF_MB_SEM_RD, 0] DPLL_REF_MB_SEM_SIZE) (\<lambda>_.
     seq (readx_poll_timeout_atomic zl3073x_ref_mb_sem
            (\<lambda>val. uint DPLL_REF_MB_SEM_RD AND val = 0) READ_SLEEP_US READ_TIMEOUT_US) (\<lambda>_.
     seq (zl3073x_read DPLL_REF_FREQ_BASE_REG DPLL_REF_FREQ_BASE_REG_SIZE) (\<lambda>buf.
       let baseFreq = (push_bit 8 (ucast (buf ! 0)) OR ucast (buf ! 1) :: u32) in
     seq (zl3073x_read DPLL_REF_FREQ_MULT_REG DPLL_REF_FREQ_MULT_REG_SIZE) (\<lambda>buf.
       let multiplier = (push_bit 8 (ucast (buf ! 0)) OR ucast (buf ! 1) :: u32) in
     seq (zl3073x_read DPLL_REF_FREQ_RATIO_M_REG DPLL_REF_FREQ_RATIO_M_REG_SIZE) (\<lambda>buf.
       let numerator = (push_bit 8 (ucast (buf ! 0)) OR ucast (buf ! 1) :: u32) in
     seq (zl3073x_read DPLL_REF_FREQ_RATIO_N_REG DPLL_REF_FREQ_RATIO_N_REG_SIZE) (\<lambda>buf.
       let denominator = (push_bit 8 (ucast (buf ! 0)) OR ucast (buf ! 1) :: u32) in
       if denominator = 0 then divide_fault
       else (case input_frequency_of (baseFreq * multiplier * numerator div denominator) of
               None \<Rightarrow> ret_err (- EOPNOTSUPP)
             | Some frequency \<Rightarrow> ret_ok frequency))))))))"

section \<open>Devices to run the driver on\<close>

text \<open>
  A register file behind the bus: every transfer succeeds, a read returns the bytes
  stored, a write stores them. A request that the driver writes to a semaphore or
  command register is finished by the next transfer, so the register keeps the byte
  with the request bits already cleared: both bits of the four mailbox semaphores,
  the semaphore bit of the two ToD control registers and the operation field of the
  phase-step control register. The device has no clock: its ToD never moves.
\<close>

fun store :: "(nat \<Rightarrow> u8) \<Rightarrow> nat \<Rightarrow> u8 list \<Rightarrow> nat \<Rightarrow> u8" where
  "store m a [] = m"
| "store m a (b # bs) = store (m(a := b)) (Suc a) bs"

definition completed :: "nat \<Rightarrow> u8 \<Rightarrow> u8" where
  "completed regaddr b =
     (if regaddr \<in> {0x504, 0x604, 0x684, 0x704} then 0
      else if regaddr \<in> {0x2b8, 0x2b9} then b AND NOT 0x10
      else if regaddr = 0x4b8 then b AND NOT 3
      else b)"

definition regfile_read :: "(nat \<Rightarrow> u8) \<Rightarrow> nat \<Rightarrow> nat \<Rightarrow> int \<times> (nat \<Rightarrow> u8) \<times> (nat \<Rightarrow> u8)" where
  "regfile_read m regaddr count = (0, (\<lambda>i. m (regaddr + i)), m)"

definition regfile_write :: "(nat \<Rightarrow> u8) \<Rightarrow> nat \<Rightarrow> u8 list \<Rightarrow> int \<times> (nat \<Rightarrow> u8)" where
  "regfile_write m regaddr bytes = (0, store m regaddr (map (completed regaddr) bytes))"

text \<open>
  The device \<open>regfile m\<close> starts with the registers \<open>m\<close>. Output pair 0 carries the
  periodic output of both DPLLs, and the PTP core maps periodic-output channel 0 to pin 0.
\<close>

definition regfile :: "(nat \<Rightarrow> u8) \<Rightarrow> (nat \<Rightarrow> u8) zl3073x" where
  "regfile m =
     \<lparr>regmap_bulk_read = regfile_read, regmap_bulk_write = regfile_write, regmap = m,
      bus_log = [], perout_mask = (\<lambda>_. 1),
      ptp_find_pin = (\<lambda>_ chan. if chan = 0 then 0 else - 1)\<rparr>"

text \<open>
  The same device with a clock: each command written to the ToD control register of
  DPLL 0 finds the seconds (their lowest byte, at the highest address) one further.
\<close>

definition ticking_write :: "(nat \<Rightarrow> u8) \<Rightarrow> nat \<Rightarrow> u8 list \<Rightarrow> int \<times> (nat \<Rightarrow> u8)" where
  "ticking_write m regaddr bytes =
     (if regaddr = 0x2b8
      then (0, (store m regaddr (map (completed regaddr) bytes))(0x317 := m 0x317 + 1))
      else regfile_write m regaddr bytes)"

definition ticking :: "(nat \<Rightarrow> u8) \<Rightarrow> (nat \<Rightarrow> u8) zl3073x" where
  "ticking m = (regfile m)\<lparr>regmap_bulk_write := ticking_write\<rparr>"

text \<open>Register contents: all zero but for the frequency of the synthesizer mailbox,
  given as base (16 bits), multiplier (32 bits), numerator and denominator (16 bits).\<close>

definition synth_regs :: "u16 \<Rightarrow> u32 \<Rightarrow> u16 \<Rightarrow> u16 \<Rightarrow> nat \<Rightarrow> u8" where
  "synth_regs base mult numerator denomitor =
     (\<lambda>_. 0)(0x686 := ucast (drop_bit 8 base), 0x687 := ucast base,
             0x688 := ucast (drop_bit 24 mult), 0x689 := ucast (drop_bit 16 mult),
             0x68a := ucast (drop_bit 8 mult), 0x68b := ucast mult,
             0x68c := ucast (drop_bit 8 numerator), 0x68d := ucast numerator,
             0x68e := ucast (drop_bit 8 denomitor), 0x68f := ucast denomitor)"

text \<open>The time of day that the ToD registers of a DPLL hold in the registers \<open>m\<close>.\<close>

definition frozen_tod :: "u8 \<Rightarrow> (nat \<Rightarrow> u8) \<Rightarrow> timespec64" where
  "frozen_tod index m =
     zl3073x_ptp_bytearray_to_timestamp
       (map (\<lambda>i. m (DPLL_TOD_SEC index + i)) [0..<DPLL_TOD_SEC_SIZE])
       (map (\<lambda>i. m (DPLL_TOD_NSEC index + i)) [0..<DPLL_TOD_NSEC_SIZE])"

text \<open>
  A register file on which every read that starts at the address \<open>bad\<close> fails with
  \<^verbatim>\<open>-EIO\<close>.
\<close>

definition EIO :: int where "EIO = 5"

definition faulty_read :: "nat \<Rightarrow> (nat \<Rightarrow> u8) \<Rightarrow> nat \<Rightarrow> nat \<Rightarrow> int \<times> (nat \<Rightarrow> u8) \<times> (nat \<Rightarrow> u8)" where
  "faulty_read bad m regaddr count =
     (if regaddr = bad then (- EIO, (\<lambda>_. 0), m) else regfile_read m regaddr count)"

definition faulty :: "nat \<Rightarrow> (nat \<Rightarrow> u8) \<Rightarrow> (nat \<Rightarrow> u8) zl3073x" where
  "faulty bad m = (regfile m)\<lparr>regmap_bulk_read := faulty_read bad\<rparr>"

text \<open>
  A register file seen from the loop that waits for the seconds to roll over, with
  \<open>init_ts\<close> the time the loop compares with: the ToD semaphore of the DPLL is clear,
  and the seconds the registers hold are not above those of \<open>init_ts\<close> once these are set.
\<close>

definition stopped_clock :: "u8 \<Rightarrow> timespec64 \<Rightarrow> (nat \<Rightarrow> u8) zl3073x \<Rightarrow> bool" where
  "stopped_clock index init_ts z \<longleftrightarrow>
     regmap_bulk_read z = regfile_read \<and> regmap_bulk_write z = regfile_write \<and>
     regmap z (DPLL_TOD_CTRL index) AND 0x10 = 0 \<and>
     (tv_sec init_ts = 0 \<or> tv_sec (frozen_tod index (regmap z)) \<le> tv_sec init_ts)"

section \<open>What a call adds to the record of the bus\<close>

text \<open>
  \<open>only_writes W\<close> holds of every read, and of a write if \<open>W\<close> holds of its address
  and bytes. \<open>appends P m\<close>: from any state, the call \<open>m\<close> leaves the transactions
  already recorded as they are and adds only transactions that satisfy \<open>P\<close>.
\<close>

definition only_writes :: "(nat \<Rightarrow> u8 list \<Rightarrow> bool) \<Rightarrow> bus_op \<Rightarrow> bool" where
  "only_writes W op =
     (case op of BusRead _ _ _ _ \<Rightarrow> True | BusWrite regaddr bytes _ \<Rightarrow> W regaddr bytes)"

definition appends :: "(bus_op \<Rightarrow> bool) \<Rightarrow> ('h, 'a) drv \<Rightarrow> bool" where
  "appends P m \<longleftrightarrow> (\<forall>z. \<exists>ops. bus_log (snd (m z)) = bus_log z @ ops \<and> list_all P ops)"

text \<open>The writes of a record, in order: address and bytes.\<close>

fun bus_writes :: "bus_op list \<Rightarrow> (nat \<times> u8 list) list" where
  "bus_writes [] = []"
| "bus_writes (BusRead regaddr count ret bytes # ops) = bus_writes ops"
| "bus_writes (BusWrite regaddr bytes ret # ops) = (regaddr, bytes) # bus_writes ops"

section \<open>Running the driver on a register file\<close>

lemmas reg_defs =
  DPLL_TOD_CTRL_def DPLL_TOD_CTRL_SEM_def DPLL_DF_OFFSET_def DPLL_TOD_SEC_def DPLL_TOD_SEC_SIZE_def
  DPLL_TOD_NSEC_def DPLL_TOD_NSEC_SIZE_def DPLL_OUTPUT_CTRL_def DPLL_OUTPUT_CTRL_SIZE_def
  DPLL_OUTPUT_CTRL_SYNTH_SEL_GET_def DPLL_OUTPUT_PHASE_STEP_CTRL_def DPLL_OUTPUT_PHASE_STEP_CTRL_SIZE_def
  DPLL_OUTPUT_PHASE_STEP_CTRL_OP_def DPLL_OUTPUT_PAHSE_STEP_CTRL_OP_WRITE_def
  DPLL_OUTPUT_PHASE_STEP_CTRL_OP_MASK_def DPLL_OUTPUT_PHASE_STEP_CTRL_TOD_STEP_def
  DPLL_OUTPUT_PHASE_STEP_CTRL_DPLL_def DPLL_OUTPUT_PHASE_STEP_NUMBER_def
  DPLL_OUTPUT_PHASE_STEP_NUMBER_SIZE_def DPLL_OUTPUT_PHASE_STEP_MASK_def
  DPLL_OUTPUT_PHASE_STEP_MASK_SIZE_def DPLL_OUTPUT_PHASE_STEP_DATA_def
  DPLL_OUTPUT_PHASE_STEP_DATA_SIZE_def DPLL_REF_MB_MASK_def DPLL_REF_MB_SEM_def
  DPLL_REF_MB_SEM_SIZE_def DPLL_REF_MB_SEM_RD_def DPLL_REF_MB_SEM_WR_def DPLL_REF_FREQ_BASE_REG_def
  DPLL_REF_FREQ_BASE_REG_SIZE_def DPLL_REF_FREQ_MULT_REG_def DPLL_REF_FREQ_MULT_REG_SIZE_def
  DPLL_REF_FREQ_RATIO_M_REG_def DPLL_REF_FREQ_RATIO_M_REG_SIZE_def DPLL_REF_FREQ_RATIO_N_REG_def
  DPLL_REF_FREQ_RATIO_N_REG_SIZE_def DPLL_DPLL_MB_MASK_def DPLL_DPLL_MB_MASK_SIZE_def
  DPLL_DPLL_MB_SEM_def DPLL_DPLL_MB_SEM_SIZE_def DPLL_DPLL_MB_SEM_RD_def DPLL_DPLL_MB_SEM_WR_def
  DPLL_REF_PRIORITY_def DPLL_SYNTH_MB_MASK_def DPLL_SYNTH_MB_MASK_SIZE_def DPLL_SYNTH_MB_SEM_def
  DPLL_SYNTH_MB_SEM_SIZE_def DPLL_SYNTH_MB_SEM_RD_def DPLL_SYNTH_FREQ_BASE_def
  DPLL_SYNTH_FREQ_BASE_SIZE_def DPLL_SYNTH_FREQ_MULT_def DPLL_SYNTH_FREQ_MULT_SIZE_def
  DPLL_SYNTH_FREQ_M_def DPLL_SYNTH_FREQ_M_SIZE_def DPLL_SYNTH_FREQ_N_def DPLL_SYNTH_FREQ_N_SIZE_def
  DPLL_OUTPUT_MB_MASK_def DPLL_OUTPUT_MB_MASK_SIZE_def DPLL_OUTPUT_MB_SEM_def
  DPLL_OUTPUT_MB_SEM_SIZE_def DPLL_OUTPUT_MB_SEM_RD_def DPLL_OUTPUT_MB_SEM_WR_def DPLL_OUTPUT_MODE_def
  DPLL_OUTPUT_MODE_SIZE_def DPLL_OUTPUT_MODE_SIGNAL_FORMAT_MASK_def DPLL_OUTPUT_DIV_def
  DPLL_OUTPUT_DIV_SIZE_def DPLL_OUTPUT_WIDTH_def DPLL_OUTPUT_WIDTH_SIZE_def
  DPLL_OUTPUT_PHASE_COMPENSATION_REG_def DPLL_OUTPUT_PHASE_COMPENSATION_REG_SIZE_def
  DPLL_OUTPUT_GPO_EN_def DPLL_OUTPUT_GPO_EN_SIZE_def ZL3073X_1PPM_FORMAT_def
  ZL3073X_MAX_OUTPUT_PINS_def READ_SLEEP_US_def READ_TIMEOUT_US_def BIT_def GENMASK_def
  EINVAL_def ERANGE_def EOPNOTSUPP_def ETIMEDOUT_def NSEC_PER_SEC_def PSEC_PER_SEC_def

lemmas drv_defs =
  seq_def ret_ok_def ret_err_def divide_fault_def zl3073x_read_def zl3073x_write_def
  zl3073x_swap_def readx_poll_timeout_atomic_def zl3073x_ptp_tod_sem_def
  zl3073x_ptp_phase_ctrl_op_def zl3073x_ref_mb_sem_def zl3073x_ptp_synth_mb_sem_def
  zl3073x_dpll_mb_sem_def zl3073x_ptp_output_mb_sem_def tod_sem_clear_def phase_step_idle_def
  get_perout_mask_def set_perout_mask_def Let_def upt_conv_Cons mask_eq_exp_minus_1

lemmas chip_defs =
  regfile_def regfile_read_def regfile_write_def completed_def ticking_def ticking_write_def
  synth_regs_def

lemma read_reg_op_regfile:
  "regmap_bulk_read z = regfile_read \<Longrightarrow>
   read_reg_op a z = (uint (regmap z a), z\<lparr>bus_log := bus_log z @ [BusRead a 1 0 [regmap z a]]\<rparr>)"
  by (simp add: read_reg_op_def zl3073x_read_def regfile_read_def)

text \<open>On a register file a poll ends at the first read if the register satisfies the
  condition, and uses up all its reads if it does not.\<close>

lemma poll_loop_clear:
  "regmap_bulk_read z = regfile_read \<Longrightarrow> cond (uint (regmap z a)) \<Longrightarrow>
   poll_loop n (read_reg_op a) cond z =
     (True, z\<lparr>bus_log := bus_log z @ [BusRead a 1 0 [regmap z a]]\<rparr>)"
  by (cases n) (simp_all add: read_reg_op_regfile)

lemma poll_loop_stuck:
  "regmap_bulk_read z = regfile_read \<Longrightarrow> \<not> cond (uint (regmap z a)) \<Longrightarrow>
   poll_loop n (read_reg_op a) cond z =
     (False, z\<lparr>bus_log := bus_log z @ replicate (n + 2) (BusRead a 1 0 [regmap z a])\<rparr>)"
proof (induction n arbitrary: z)
  case 0
  then show ?case by (simp add: read_reg_op_regfile numeral_2_eq_2)
next
  case (Suc n)
  have "poll_loop (Suc n) (read_reg_op a) cond z =
        poll_loop n (read_reg_op a) cond (z\<lparr>bus_log := bus_log z @ [BusRead a 1 0 [regmap z a]]\<rparr>)"
    using Suc.prems by (simp add: read_reg_op_regfile)
  also have "\<dots> = (False, z\<lparr>bus_log := bus_log z @ replicate (Suc n + 2) (BusRead a 1 0 [regmap z a])\<rparr>)"
    using Suc.prems by (subst Suc.IH) (simp_all add: replicate_app_Cons_same)
  finally show ?case .
qed

lemmas run_defs = drv_defs chip_defs reg_defs poll_loop_clear poll_loop_stuck

section \<open>Reference input frequency: encoding and decoding\<close>

text \<open>
  Eight of the nine frequencies of the table are read back as they were set.
\<close>

lemma input_frequency_read_back:
  assumes "f \<in> {1, 25, 100, 1000, 10000000, 25000000, 62500000, 100000000}"
  shows "case zl3073x_dpll_set_input_frequency 0 f (regfile (\<lambda>_. 0)) of
           (r, z) \<Rightarrow> r = Inr () \<and> fst (zl3073x_dpll_get_input_frequency 0 z) = Inr f"
  using assms
  by (elim insertE emptyE)
     (simp_all add: zl3073x_dpll_set_input_frequency_def zl3073x_dpll_get_input_frequency_def
        input_frequency_table_def input_frequency_of_def run_defs)

text \<open>
  C1. Claim: each of the nine frequencies of the table, set with
  \<^verbatim>\<open>zl3073x_dpll_set_input_frequency\<close> and read with
  \<^verbatim>\<open>zl3073x_dpll_get_input_frequency\<close> from the same registers, comes back as it was.
  For 78.125 MHz the table gives the base \<open>0x1E848\<close>, which does not fit the two bytes of
  the base register: the bytes \<open>0xE8, 0x48\<close> are written, the frequency read is
  \<open>0xE848 * 0x271 = 37165000\<close>, and the decoding answers \<^verbatim>\<open>-EOPNOTSUPP\<close>.
\<close>

theorem input_frequency_78p125MHZ_not_read_back:
  "case zl3073x_dpll_set_input_frequency 0 78125000 (regfile (\<lambda>_. 0)) of
     (r, z) \<Rightarrow>
       r = Inr () \<and>
       BusWrite DPLL_REF_FREQ_BASE_REG [0xE8, 0x48] 0 \<in> set (bus_log z) \<and>
       fst (zl3073x_dpll_get_input_frequency 0 z) = Inl (Errno (- EOPNOTSUPP))"
  by (simp add: zl3073x_dpll_set_input_frequency_def zl3073x_dpll_get_input_frequency_def
        input_frequency_table_def input_frequency_of_def run_defs)

section \<open>Output phase compensation: the multiple test and the return value\<close>

text \<open>A synthesizer at 100 MHz has a half cycle of 5000 ps.\<close>

lemma halfSynthCycle_100MHz: "halfSynthCycle_of 100000000 = Some 5000"
  by (simp add: halfSynthCycle_of_def PSEC_PER_SEC_def)

text \<open>An offset of 1 ps, no multiple of 5000 ps, is accepted and written as 0 half cycles.\<close>

lemma set_output_phase_adjust_accepts_1ps:
  "case zl3073x_dpll_set_output_phase_adjust 0 1 (regfile (synth_regs 0x4E20 0x1388 1 1)) of
     (r, z) \<Rightarrow> r = Inr () \<and>
       BusWrite DPLL_OUTPUT_PHASE_COMPENSATION_REG [0, 0, 0, 0] 0 \<in> set (bus_log z)"
  by (simp add: zl3073x_dpll_set_output_phase_adjust_def zl3073x_synth_get_def
        zl3073x_ptp_get_synth_freq'_def halfSynthCycle_of_def c_div_faults_def return_0_at_out_def
        signed_modulo_int_def signed_divide_int_def run_defs)

text \<open>
  C2. Claim: an offset that is a multiple of the half synthesizer cycle is written and read
  back unchanged, any other offset is refused with \<^verbatim>\<open>-ERANGE\<close> before any write.
  The source tests \<^verbatim>\<open>halfSynthCycle % phaseOffsetComp32\<close>, the operands the wrong way
  round for its own comment (\<^verbatim>\<open>Not a multiple of halfSynthCycle\<close>): with a half cycle of
  5000 ps the multiple 10000 ps is refused, after the reading of the synthesizer.
\<close>

theorem set_output_phase_adjust_refuses_multiple:
  "(10000 :: int) mod 5000 = 0 \<and>
   (case zl3073x_dpll_set_output_phase_adjust 0 10000 (regfile (synth_regs 0x4E20 0x1388 1 1)) of
      (r, z) \<Rightarrow> r = Inl (Errno (- ERANGE)) \<and>
        bus_log z =
          [BusRead 0x4a8 1 0 [0],
           BusWrite DPLL_SYNTH_MB_MASK [0, 1] 0, BusWrite DPLL_SYNTH_MB_SEM [2] 0,
           BusRead DPLL_SYNTH_MB_SEM 1 0 [0],
           BusRead DPLL_SYNTH_FREQ_BASE 2 0 [0x4E, 0x20],
           BusRead DPLL_SYNTH_FREQ_MULT 4 0 [0, 0, 0x13, 0x88],
           BusRead DPLL_SYNTH_FREQ_M 2 0 [0, 1], BusRead DPLL_SYNTH_FREQ_N 2 0 [0, 1]])"
  by (simp add: zl3073x_dpll_set_output_phase_adjust_def zl3073x_synth_get_def
        zl3073x_ptp_get_synth_freq'_def halfSynthCycle_of_def c_div_faults_def return_0_at_out_def
        signed_modulo_int_def signed_divide_int_def run_defs)

text \<open>
  C3. Claim: an operation whose semaphore poll times out returns the timeout error; in
  particular \<^verbatim>\<open>zl3073x_dpll_set_output_phase_adjust\<close> does for its last poll.
  The source ends in \<^verbatim>\<open>out: mutex_unlock(zl3073x->lock); return 0;\<close>. On a device whose
  semaphore at \<open>0x604\<close> (the register this function polls) keeps its write bit set, an
  offset of one half cycle passes the test, the poll makes all its reads of that register,
  each returning 1, and the call returns 0.
\<close>

theorem set_output_phase_adjust_hides_timeout:
  "case zl3073x_dpll_set_output_phase_adjust 0 5000
          (regfile ((synth_regs 0x4E20 0x1388 1 1)(0x604 := 1))) of
     (r, z) \<Rightarrow>
       r = Inr () \<and>
       bus_log z =
         [BusRead 0x4a8 1 0 [0],
          BusWrite DPLL_SYNTH_MB_MASK [0, 1] 0, BusWrite DPLL_SYNTH_MB_SEM [2] 0,
          BusRead DPLL_SYNTH_MB_SEM 1 0 [0],
          BusRead DPLL_SYNTH_FREQ_BASE 2 0 [0x4E, 0x20],
          BusRead DPLL_SYNTH_FREQ_MULT 4 0 [0, 0, 0x13, 0x88],
          BusRead DPLL_SYNTH_FREQ_M 2 0 [0, 1], BusRead DPLL_SYNTH_FREQ_N 2 0 [0, 1],
          BusWrite DPLL_OUTPUT_MB_MASK [0, 1] 0,
          BusWrite DPLL_OUTPUT_PHASE_COMPENSATION_REG [0xFF, 0xFF, 0xFF, 0xFF] 0,
          BusWrite DPLL_OUTPUT_MB_SEM [1] 0] @
         replicate (READ_TIMEOUT_US div READ_SLEEP_US + 2) (BusRead DPLL_DPLL_MB_SEM 1 0 [1])"
  by (simp add: zl3073x_dpll_set_output_phase_adjust_def zl3073x_synth_get_def
        zl3073x_ptp_get_synth_freq'_def halfSynthCycle_of_def c_div_faults_def return_0_at_out_def
        signed_modulo_int_def signed_divide_int_def run_defs
        unsigned_minus_1_eq_mask mask_eq_exp_minus_1)

section \<open>Synthesizer frequency: the width of the product\<close>

text \<open>The scenario of the specification: 0x4E20 * 0x1388 * 1 / 1 is 100 MHz.\<close>

lemma get_synth_freq_100MHz:
  "fst (zl3073x_ptp_get_synth_freq' 0 (regfile (synth_regs 0x4E20 0x1388 1 1))) = Inr 100000000"
  by (simp add: zl3073x_ptp_get_synth_freq'_def run_defs)

text \<open>
  C4. Claim: the frequency returned is \<open>base * multiplier * numerator / denominator\<close>
  computed in 64 bits, without overflow before the division. The C expression is
  evaluated in \<^verbatim>\<open>unsigned int\<close>, and the \<^verbatim>\<open>u64\<close> result only receives the quotient.
  For 156.25 MHz times 66/64 (base 15625, multiplier 10000) the product 10312500000 wraps
  to 1722565408, and the function returns 26915084 Hz instead of 161132812 Hz.
\<close>

theorem get_synth_freq_wraps_at_32_bits:
  "fst (zl3073x_ptp_get_synth_freq' 0 (regfile (synth_regs 15625 10000 66 64))) = Inr 26915084 \<and>
   (15625 * 10000 * 66) div 64 = (161132812 :: nat)"
  by (simp add: zl3073x_ptp_get_synth_freq'_def run_defs)

section \<open>Frequency adjustment by zero\<close>

text \<open>
  C10. \<^verbatim>\<open>zl3073x_ptp_adjfine\<close> with \<^verbatim>\<open>scaled_ppm == 0\<close> returns 0 at once: the
  device, with its registers and the record of its bus transactions, is what it was, so
  nothing was read and the frequency-offset register was not written.
\<close>

theorem adjfine_zero_no_access:
  "zl3073x_ptp_adjfine index 0 z = (Inr (), z)"
  by (simp add: zl3073x_ptp_adjfine_def ret_ok_def)

section \<open>Composing what calls add to the record\<close>

lemma appendsI:
  "(\<And>z. \<exists>ops. bus_log (snd (m z)) = bus_log z @ ops \<and> list_all P ops) \<Longrightarrow> appends P m"
  by (simp add: appends_def)

lemma appendsD:
  "appends P m \<Longrightarrow> \<exists>ops. bus_log (snd (m z)) = bus_log z @ ops \<and> list_all P ops"
  by (simp add: appends_def)

lemma appends_seq:
  assumes "appends P m" and "\<And>x. appends P (f x)"
  shows "appends P (seq m f)"
proof (rule appendsI)
  fix z
  obtain r z1 where m: "m z = (r, z1)" by (cases "m z")
  from appendsD [OF assms(1), of z] m obtain ops1
    where l1: "bus_log z1 = bus_log z @ ops1" "list_all P ops1" by auto
  show "\<exists>ops. bus_log (snd (seq m f z)) = bus_log z @ ops \<and> list_all P ops"
  proof (cases r)
    case (Inl e)
    with m l1 show ?thesis by (simp add: seq_def)
  next
    case (Inr x)
    from appendsD [OF assms(2), of x z1] obtain ops2
      where "bus_log (snd (f x z1)) = bus_log z1 @ ops2" "list_all P ops2" by auto
    with m l1 Inr show ?thesis by (simp add: seq_def)
  qed
qed

lemma appends_ret_ok: "appends P (ret_ok x)"
  by (simp add: appends_def ret_ok_def)

lemma appends_ret_err: "appends P (ret_err e)"
  by (simp add: appends_def ret_err_def)

lemma appends_divide_fault: "appends P divide_fault"
  by (simp add: appends_def divide_fault_def)

lemma appends_if: "appends P m \<Longrightarrow> appends P n \<Longrightarrow> appends P (if b then m else n)"
  by simp

lemma appends_read:
  "(\<And>ret bytes. P (BusRead regaddr count ret bytes)) \<Longrightarrow> appends P (zl3073x_read regaddr count)"
  by (simp add: appends_def zl3073x_read_def split: prod.splits)

lemma appends_write:
  "(\<And>ret. P (BusWrite regaddr (take count (zl3073x_swap buf count)) ret)) \<Longrightarrow>
   appends P (zl3073x_write regaddr buf count)"
  by (simp add: appends_def zl3073x_write_def Let_def split: prod.splits)

lemma read_reg_op_log:
  "\<exists>ret bytes. bus_log (snd (read_reg_op regaddr z)) = bus_log z @ [BusRead regaddr 1 ret bytes]"
  by (auto simp: read_reg_op_def zl3073x_read_def split: prod.splits sum.splits error.splits)

lemma poll_loop_log:
  assumes "\<And>ret bytes. P (BusRead regaddr 1 ret bytes)"
  shows "\<exists>ops. bus_log (snd (poll_loop n (read_reg_op regaddr) cond z)) = bus_log z @ ops \<and> list_all P ops"
proof (induction n arbitrary: z)
  case 0
  obtain v z1 where r1: "read_reg_op regaddr z = (v, z1)" by (cases "read_reg_op regaddr z")
  obtain v2 z2 where r2: "read_reg_op regaddr z1 = (v2, z2)" by (cases "read_reg_op regaddr z1")
  from read_reg_op_log [of regaddr z] r1 obtain ret bytes
    where l1: "bus_log z1 = bus_log z @ [BusRead regaddr 1 ret bytes]" by auto
  from read_reg_op_log [of regaddr z1] r2 obtain ret2 bytes2
    where l2: "bus_log z2 = bus_log z1 @ [BusRead regaddr 1 ret2 bytes2]" by auto
  from r1 r2 l1 l2 assms show ?case by simp
next
  case (Suc n)
  obtain v z1 where r1: "read_reg_op regaddr z = (v, z1)" by (cases "read_reg_op regaddr z")
  from read_reg_op_log [of regaddr z] r1 obtain ret bytes
    where l1: "bus_log z1 = bus_log z @ [BusRead regaddr 1 ret bytes]" by auto
  from Suc.IH [of z1] obtain ops
    where "bus_log (snd (poll_loop n (read_reg_op regaddr) cond z1)) = bus_log z1 @ ops" "list_all P ops"
    by auto
  with r1 l1 assms show ?case by simp
qed

lemma appends_poll:
  assumes "\<And>ret bytes. P (BusRead regaddr 1 ret bytes)"
  shows "appends P (readx_poll_timeout_atomic (read_reg_op regaddr) cond sleep_us timeout_us)"
proof (rule appendsI)
  fix z
  from poll_loop_log [of P regaddr "timeout_us div sleep_us" cond z, OF assms]
  show "\<exists>ops. bus_log (snd (readx_poll_timeout_atomic (read_reg_op regaddr) cond sleep_us timeout_us z)) =
          bus_log z @ ops \<and> list_all P ops"
    by (simp add: readx_poll_timeout_atomic_def case_prod_beta)
qed

lemma appends_get_perout_mask: "appends P (get_perout_mask index)"
  by (simp add: appends_def get_perout_mask_def)

lemma appends_set_perout_mask: "appends P (set_perout_mask index m)"
  by (simp add: appends_def set_perout_mask_def)

lemmas appends_intros = appends_seq appends_ret_ok appends_ret_err appends_divide_fault
  appends_read appends_write appends_poll appends_get_perout_mask appends_set_perout_mask

lemma swap2: "zl3073x_swap [a, b, c, d] 2 = [b, a, c, d]"
  by (simp add: zl3073x_swap_def)
lemma swap1: "zl3073x_swap xs (Suc 0) = xs"
  by (simp add: zl3073x_swap_def)
lemma swap4: "zl3073x_swap [a, b, c, d] 4 = [d, c, b, a]"
  by (simp add: zl3073x_swap_def)

lemma get_synth_freq_appends:
  assumes "\<And>b. W DPLL_SYNTH_MB_MASK [0, b]" "W DPLL_SYNTH_MB_SEM [DPLL_SYNTH_MB_SEM_RD]"
  shows "appends (only_writes W) (zl3073x_ptp_get_synth_freq' synth)"
  unfolding zl3073x_ptp_get_synth_freq'_def zl3073x_ptp_synth_mb_sem_def Let_def
  by (intro appends_intros appends_if)
     (simp_all add: only_writes_def assms DPLL_SYNTH_MB_MASK_SIZE_def DPLL_SYNTH_MB_SEM_SIZE_def swap1 swap2)

lemma appendsD2:
  "appends P m \<Longrightarrow> m z = (r, z') \<Longrightarrow> \<exists>ops. bus_log z' = bus_log z @ ops \<and> list_all P ops"
  using appendsD [of P m z] by simp

lemma steptime_appends:
  assumes "W DPLL_OUTPUT_PHASE_STEP_NUMBER [1]"
    and "\<And>b. W DPLL_SYNTH_MB_MASK [0, b]"
    and "W DPLL_SYNTH_MB_SEM [DPLL_SYNTH_MB_SEM_RD]"
    and "\<And>synthFreq. W DPLL_OUTPUT_PHASE_STEP_DATA
           (let register_units = (word_of_int (sint (delta * synthFreq) sdiv NSEC_PER_SEC) :: s32)
            in [ucast (signed_drop_bit 24 register_units), ucast (signed_drop_bit 16 register_units),
                ucast (signed_drop_bit 8 register_units), ucast register_units])"
    and "\<And>b. W DPLL_OUTPUT_PHASE_STEP_MASK [0, b]"
    and "\<And>b. W DPLL_OUTPUT_PHASE_STEP_CTRL [b]"
  shows "appends (only_writes W) (zl3073x_ptp_steptime' index delta)"
  unfolding zl3073x_ptp_steptime'_def zl3073x_ptp_phase_ctrl_op_def Let_def
  apply (intro appends_intros get_synth_freq_appends assms(2,3))
  using assms(1,4,5,6)
     apply (simp_all add: only_writes_def Let_def swap1 swap2 swap4
       DPLL_OUTPUT_PHASE_STEP_DATA_SIZE_def DPLL_OUTPUT_PHASE_STEP_NUMBER_SIZE_def
       DPLL_OUTPUT_PHASE_STEP_MASK_SIZE_def DPLL_OUTPUT_PHASE_STEP_CTRL_SIZE_def)
  done

lemma gettime_appends:
  assumes "W (DPLL_TOD_CTRL index) [word_of_int DPLL_TOD_CTRL_SEM OR tod_ctrl_cmd_val cmd]"
  shows "appends (only_writes W) (zl3073x_ptp_gettime64' index cmd)"
  unfolding zl3073x_ptp_gettime64'_def zl3073x_ptp_tod_sem_def
  by (intro appends_intros) (simp_all add: only_writes_def assms swap1)

lemma tod_poll_appends:
  "appends (only_writes W)
     (readx_poll_timeout_atomic (zl3073x_ptp_tod_sem index) tod_sem_clear READ_SLEEP_US READ_TIMEOUT_US)"
  unfolding zl3073x_ptp_tod_sem_def by (intro appends_intros) (simp add: only_writes_def)

lemma wait_loop_log_aux:
  assumes W: "W (DPLL_TOD_CTRL index) [0x19]"
    and "zl3073x_ptp_wait_sec_rollover_loop i init_ts z = Some y"
    and "i = index"
  shows "\<exists>ops. bus_log (snd y) = bus_log z @ ops \<and> list_all (only_writes W) ops"
  using assms(2,3)
proof (induction i init_ts z y
    rule: zl3073x_ptp_wait_sec_rollover_loop.raw_induct [rotated 1, consumes 1])
  case (1 loop i init_ts z y)
  note i = \<open>i = index\<close>
  have W': "W (DPLL_TOD_CTRL index)
      [word_of_int DPLL_TOD_CTRL_SEM OR tod_ctrl_cmd_val ZL3073X_TOD_CTRL_CMD_READ_NEXT_1HZ]"
    using W by (simp add: DPLL_TOD_CTRL_SEM_def)
  let ?poll = "readx_poll_timeout_atomic (zl3073x_ptp_tod_sem index) tod_sem_clear
                 READ_SLEEP_US READ_TIMEOUT_US"
  let ?get = "zl3073x_ptp_gettime64' index ZL3073X_TOD_CTRL_CMD_READ_NEXT_1HZ"
  from 1(2) have F: "(case ?poll z of
        (Inl e, z1) \<Rightarrow> Some (Inl e, z1)
      | (Inr u, z1) \<Rightarrow>
          (case ?get z1 of
             (Inl e, z2) \<Rightarrow> Some (Inl e, z2)
           | (Inr ts, z2) \<Rightarrow>
               if tv_sec init_ts = 0 then loop index ts z2
               else if tv_sec init_ts < tv_sec ts then Some (Inr (), z2)
               else loop index init_ts z2)) = Some y"
    unfolding i .
  obtain r1 z1 where p: "?poll z = (r1, z1)" by (cases "?poll z")
  from appendsD2 [OF tod_poll_appends p] obtain ops1
    where l1: "bus_log z1 = bus_log z @ ops1" "list_all (only_writes W) ops1" by auto
  show ?case
  proof (cases r1)
    case (Inl e)
    from F have "y = (Inl e, z1)"
      by (simp only: p Inl prod.case sum.case) simp
    with l1 show ?thesis by auto
  next
    case (Inr u)
    obtain r2 z2 where g: "?get z1 = (r2, z2)" by (cases "?get z1")
    from appendsD2 [OF gettime_appends g, of W] W' obtain ops2
      where l2: "bus_log z2 = bus_log z1 @ ops2" "list_all (only_writes W) ops2" by auto
    show ?thesis
    proof (cases r2)
      case (Inl e)
      from F have "y = (Inl e, z2)"
        by (simp only: p g Inr Inl prod.case sum.case) simp
      with l1 l2 show ?thesis by auto
    next
      case ts: (Inr ts)
      from F have "(if tv_sec init_ts = 0 then loop index ts z2
                  else if tv_sec init_ts < tv_sec ts then Some (Inr (), z2)
                  else loop index init_ts z2) = Some y"
        by (simp only: p g Inr ts prod.case sum.case)
      then consider (rolled) "y = (Inr (), z2)" | (again) init where "loop index init z2 = Some y"
        by (cases "tv_sec init_ts = 0"; cases "tv_sec init_ts < tv_sec ts") auto
      then show ?thesis
      proof cases
        case rolled
        with l1 l2 show ?thesis by auto
      next
        case again
        from "1.IH" [OF again refl] obtain ops3
          where "bus_log (snd y) = bus_log z2 @ ops3" "list_all (only_writes W) ops3" by auto
        with l1 l2 show ?thesis by auto
      qed
    qed
  qed
qed

lemma wait_sec_rollover_log:
  assumes "zl3073x_ptp_wait_sec_rollover index z = Some (r, z')"
    and "W (DPLL_TOD_CTRL index) [0x19]"
  shows "\<exists>ops. bus_log z' = bus_log z @ ops \<and> list_all (only_writes W) ops"
  using wait_loop_log_aux [of W index index _ z "(r, z')"] assms
  by (simp add: zl3073x_ptp_wait_sec_rollover_def)

section \<open>The two tiers of the time adjustment\<close>

lemma scast_s32_s64:
  assumes "- (2 ^ 31) \<le> k" "k < 2 ^ 31"
  shows "(scast (word_of_int k :: s32) :: s64) = word_of_int k"
proof (rule signed_word_eqI)
  have "- (2 ^ 63) \<le> k" "k < 2 ^ 63" using assms by simp_all
  with assms show "sint (scast (word_of_int k :: s32) :: s64) = sint (word_of_int k :: s64)"
    by (simp add: signed_scast_eq signed_of_int signed_take_bit_int_eq_self)
qed

lemma adjtime_small:
  assumes "\<bar>sint delta\<bar> < NSEC_PER_SEC"
  shows "zl3073x_ptp_adjtime index delta z = Some (zl3073x_ptp_steptime' index delta z)"
proof -
  from assms have q: "sint delta sdiv NSEC_PER_SEC = 0" and r: "sint delta smod NSEC_PER_SEC = sint delta"
    by (auto simp: signed_divide_int_def signed_modulo_int_def NSEC_PER_SEC_def sgn_if
         zdiv_int zmod_int abs_if)
  have "- (2 ^ 31) \<le> sint delta" "sint delta < 2 ^ 31"
    using assms by (simp_all add: NSEC_PER_SEC_def)
  then have "(scast (word_of_int (sint delta) :: s32) :: s64) = word_of_int (sint delta)"
    by (rule scast_s32_s64)
  then have e: "(scast (word_of_int (sint delta smod NSEC_PER_SEC) :: s32) :: s64) = delta"
    by (simp only: r) simp
  from assms have c: "\<not> (sint delta \<ge> NSEC_PER_SEC \<or> sint delta \<le> - NSEC_PER_SEC)"
    by auto
  show ?thesis
    unfolding zl3073x_ptp_adjtime_def Let_def e using c by (simp only: if_False)
qed

lemma smod_bounds:
  "- NSEC_PER_SEC < k smod NSEC_PER_SEC" "k smod NSEC_PER_SEC < NSEC_PER_SEC"
  by (auto simp: signed_modulo_int_def NSEC_PER_SEC_def sgn_if abs_if
        intro: order_less_le_trans [of _ 0] order_le_less_trans [of _ 0])

lemma ns_to_timespec64_whole: "ns_to_timespec64 (d * NSEC_PER_SEC) = \<lparr>tv_sec = d, tv_nsec = 0\<rparr>"
  by (simp add: ns_to_timespec64_def NSEC_PER_SEC_def)

lemma adjtime_large:
  assumes "NSEC_PER_SEC \<le> \<bar>sint delta\<bar>"
  shows "zl3073x_ptp_adjtime index delta z =
        (case zl3073x_ptp_wait_sec_rollover index z of
           None \<Rightarrow> None
         | Some (Inl e, z1) \<Rightarrow> Some (Inl e, z1)
         | Some (Inr u, z1) \<Rightarrow> Some (
             seq (zl3073x_ptp_gettime64' index ZL3073X_TOD_CTRL_CMD_READ_NEXT_1HZ) (\<lambda>ts.
             seq (zl3073x_ptp_settime64' index
                    (timespec64_add ts \<lparr>tv_sec = sint delta sdiv NSEC_PER_SEC, tv_nsec = 0\<rparr>)
                    ZL3073X_TOD_CTRL_CMD_WRITE_NEXT_1HZ) (\<lambda>_.
             seq (readx_poll_timeout_atomic (zl3073x_ptp_tod_sem index) tod_sem_clear
                    READ_SLEEP_US READ_TIMEOUT_US) (\<lambda>_.
               zl3073x_ptp_steptime' index (word_of_int (sint delta smod NSEC_PER_SEC))))) z1))"
proof -
  have "- (2 ^ 31) \<le> sint delta smod NSEC_PER_SEC" "sint delta smod NSEC_PER_SEC < 2 ^ 31"
    using smod_bounds [of "sint delta"] by (simp_all add: NSEC_PER_SEC_def)
  then have e: "(scast (word_of_int (sint delta smod NSEC_PER_SEC) :: s32) :: s64) =
                word_of_int (sint delta smod NSEC_PER_SEC)"
    by (rule scast_s32_s64)
  from assms have c: "sint delta \<ge> NSEC_PER_SEC \<or> sint delta \<le> - NSEC_PER_SEC"
    by auto
  show ?thesis
    unfolding zl3073x_ptp_adjtime_def Let_def e ns_to_timespec64_whole using c
    by (simp only: if_True)
qed

lemma bus_writes_only:
  "list_all (only_writes W) ops \<Longrightarrow> \<forall>(regaddr, bytes) \<in> set (bus_writes ops). W regaddr bytes"
  by (induction ops rule: bus_writes.induct) (simp_all add: only_writes_def)

lemma ffs'_1: "ffs' 1 = 0"
  by (simp add: ffs'_def eval_nat_numeral)

lemmas servo_defs =
  zl3073x_ptp_adjtime_def zl3073x_ptp_wait_sec_rollover_def
  zl3073x_ptp_wait_sec_rollover_loop.simps zl3073x_ptp_gettime64'_def zl3073x_ptp_settime64'_def
  zl3073x_ptp_bytearray_to_timestamp_def zl3073x_ptp_timestamp_to_bytearray_def
  set_normalized_timespec64_def ns_to_timespec64_def timespec64_add_def
  zl3073x_ptp_steptime'_def zl3073x_ptp_get_synth_freq'_def ffs'_1
  signed_divide_int_def signed_modulo_int_def

text \<open>
  C5. For an offset of a second or more, \<^verbatim>\<open>zl3073x_ptp_adjtime\<close> first waits for the
  rollover; if that succeeds it reads the time predicted for the next second, writes it
  back with the whole seconds of the offset added, polls the semaphore and hands the
  remainder below a second to the phase step. Up to and including the reading of the
  predicted time, the only writes on the bus are read-next-1Hz commands
  (\<open>0x19\<close>) to the ToD control register. For an offset below a second, the whole offset
  goes to the phase step, whatever the device does, and every write of the call goes to
  one of the six registers of the phase step and of the synthesizer mailbox: there is no
  write to the ToD control register, so no ToD is set.
\<close>

theorem adjtime_step_or_slew:
  "(NSEC_PER_SEC \<le> \<bar>sint delta\<bar> \<longrightarrow>
      zl3073x_ptp_adjtime index delta z =
        (case zl3073x_ptp_wait_sec_rollover index z of
           None \<Rightarrow> None
         | Some (Inl e, z1) \<Rightarrow> Some (Inl e, z1)
         | Some (Inr u, z1) \<Rightarrow> Some (
             seq (zl3073x_ptp_gettime64' index ZL3073X_TOD_CTRL_CMD_READ_NEXT_1HZ) (\<lambda>ts.
             seq (zl3073x_ptp_settime64' index
                    (timespec64_add ts \<lparr>tv_sec = sint delta sdiv NSEC_PER_SEC, tv_nsec = 0\<rparr>)
                    ZL3073X_TOD_CTRL_CMD_WRITE_NEXT_1HZ) (\<lambda>_.
             seq (readx_poll_timeout_atomic (zl3073x_ptp_tod_sem index) tod_sem_clear
                    READ_SLEEP_US READ_TIMEOUT_US) (\<lambda>_.
               zl3073x_ptp_steptime' index (word_of_int (sint delta smod NSEC_PER_SEC))))) z1)) \<and>
      (\<forall>r1 z1 r2 z2.
          zl3073x_ptp_wait_sec_rollover index z = Some (r1, z1) \<longrightarrow>
          zl3073x_ptp_gettime64' index ZL3073X_TOD_CTRL_CMD_READ_NEXT_1HZ z1 = (r2, z2) \<longrightarrow>
          (\<exists>ops. bus_log z2 = bus_log z @ ops \<and>
             (\<forall>(regaddr, bytes) \<in> set (bus_writes ops).
                 regaddr = DPLL_TOD_CTRL index \<and> bytes = [0x19])))) \<and>
   (\<bar>sint delta\<bar> < NSEC_PER_SEC \<longrightarrow>
      zl3073x_ptp_adjtime index delta z = Some (zl3073x_ptp_steptime' index delta z) \<and>
      (\<exists>ops. bus_log (snd (zl3073x_ptp_steptime' index delta z)) = bus_log z @ ops \<and>
         (\<forall>(regaddr, bytes) \<in> set (bus_writes ops).
             regaddr \<in> {DPLL_OUTPUT_PHASE_STEP_NUMBER, DPLL_SYNTH_MB_MASK, DPLL_SYNTH_MB_SEM,
                        DPLL_OUTPUT_PHASE_STEP_DATA, DPLL_OUTPUT_PHASE_STEP_MASK,
                        DPLL_OUTPUT_PHASE_STEP_CTRL} \<and>
             regaddr \<noteq> DPLL_TOD_CTRL index)))"
proof (intro conjI impI allI)
  assume "NSEC_PER_SEC \<le> \<bar>sint delta\<bar>"
  then show "zl3073x_ptp_adjtime index delta z =
        (case zl3073x_ptp_wait_sec_rollover index z of
           None \<Rightarrow> None
         | Some (Inl e, z1) \<Rightarrow> Some (Inl e, z1)
         | Some (Inr u, z1) \<Rightarrow> Some (
             seq (zl3073x_ptp_gettime64' index ZL3073X_TOD_CTRL_CMD_READ_NEXT_1HZ) (\<lambda>ts.
             seq (zl3073x_ptp_settime64' index
                    (timespec64_add ts \<lparr>tv_sec = sint delta sdiv NSEC_PER_SEC, tv_nsec = 0\<rparr>)
                    ZL3073X_TOD_CTRL_CMD_WRITE_NEXT_1HZ) (\<lambda>_.
             seq (readx_poll_timeout_atomic (zl3073x_ptp_tod_sem index) tod_sem_clear
                    READ_SLEEP_US READ_TIMEOUT_US) (\<lambda>_.
               zl3073x_ptp_steptime' index (word_of_int (sint delta smod NSEC_PER_SEC))))) z1))"
    by (rule adjtime_large)
next
  fix r1 z1 r2 z2
  let ?W = "\<lambda>regaddr bytes. regaddr = DPLL_TOD_CTRL index \<and> bytes = [0x19 :: u8]"
  assume w: "zl3073x_ptp_wait_sec_rollover index z = Some (r1, z1)"
    and g: "zl3073x_ptp_gettime64' index ZL3073X_TOD_CTRL_CMD_READ_NEXT_1HZ z1 = (r2, z2)"
  from wait_sec_rollover_log [OF w, of ?W] obtain ops1
    where l1: "bus_log z1 = bus_log z @ ops1" "list_all (only_writes ?W) ops1" by auto
  have "appends (only_writes ?W) (zl3073x_ptp_gettime64' index ZL3073X_TOD_CTRL_CMD_READ_NEXT_1HZ)"
    by (rule gettime_appends) (simp add: DPLL_TOD_CTRL_SEM_def)
  from appendsD2 [OF this g] obtain ops2
    where l2: "bus_log z2 = bus_log z1 @ ops2" "list_all (only_writes ?W) ops2" by auto
  from l1 l2 have "bus_log z2 = bus_log z @ (ops1 @ ops2)" "list_all (only_writes ?W) (ops1 @ ops2)"
    by simp_all
  with bus_writes_only [of ?W "ops1 @ ops2"]
  show "\<exists>ops. bus_log z2 = bus_log z @ ops \<and>
          (\<forall>(regaddr, bytes) \<in> set (bus_writes ops). regaddr = DPLL_TOD_CTRL index \<and> bytes = [0x19])"
    by blast
next
  assume "\<bar>sint delta\<bar> < NSEC_PER_SEC"
  then show "zl3073x_ptp_adjtime index delta z = Some (zl3073x_ptp_steptime' index delta z)"
    by (rule adjtime_small)
next
  let ?W = "\<lambda>regaddr (bytes :: u8 list).
      regaddr \<in> {DPLL_OUTPUT_PHASE_STEP_NUMBER, DPLL_SYNTH_MB_MASK, DPLL_SYNTH_MB_SEM,
                 DPLL_OUTPUT_PHASE_STEP_DATA, DPLL_OUTPUT_PHASE_STEP_MASK,
                 DPLL_OUTPUT_PHASE_STEP_CTRL} \<and>
      regaddr \<noteq> DPLL_TOD_CTRL index"
  have lt: "unat index < 256"
    using unsigned_less [of index, where 'a = nat] by simp
  have "appends (only_writes ?W) (zl3073x_ptp_steptime' index delta)"
    by (rule steptime_appends) (use lt in \<open>simp_all add: reg_defs Let_def\<close>)
  from appendsD [OF this, of z] obtain ops
    where "bus_log (snd (zl3073x_ptp_steptime' index delta z)) = bus_log z @ ops"
      "list_all (only_writes ?W) ops" by auto
  with bus_writes_only [of ?W ops]
  show "\<exists>ops. bus_log (snd (zl3073x_ptp_steptime' index delta z)) = bus_log z @ ops \<and>
         (\<forall>(regaddr, bytes) \<in> set (bus_writes ops).
             regaddr \<in> {DPLL_OUTPUT_PHASE_STEP_NUMBER, DPLL_SYNTH_MB_MASK, DPLL_SYNTH_MB_SEM,
                        DPLL_OUTPUT_PHASE_STEP_DATA, DPLL_OUTPUT_PHASE_STEP_MASK,
                        DPLL_OUTPUT_PHASE_STEP_CTRL} \<and>
             regaddr \<noteq> DPLL_TOD_CTRL index)"
    by blast
qed

text \<open>
  The theorem at work. On the device with a clock and a synthesizer at 100 MHz, an offset of
  2.5 s makes three read-next-1Hz requests (two in the wait for the rollover, which sees
  the seconds 1 and 2, one for the predicted time, 3), sets the ToD to 5 s with the
  write-next-1Hz command \<open>0x11\<close>, and steps the phase by 0.5 s, that is
  \<open>0x02FAF080\<close> cycles. On the device without a clock, an offset of 5 ns is one phase
  step of 0 cycles (5 ns is half a cycle of 100 MHz, and the division truncates).
\<close>

theorem adjtime_step_or_slew_witness:
  "NSEC_PER_SEC \<le> \<bar>sint (2500000000 :: s64)\<bar> \<and>
   \<bar>sint (5 :: s64)\<bar> < NSEC_PER_SEC \<and>
   map_option fst (zl3073x_ptp_adjtime 0 2500000000 (ticking (synth_regs 0x4E20 0x1388 1 1))) =
     Some (Inr ()) \<and>
   bus_writes (bus_log (snd (the
       (zl3073x_ptp_adjtime 0 2500000000 (ticking (synth_regs 0x4E20 0x1388 1 1)))))) =
     [(DPLL_TOD_CTRL 0, [0x19]), (DPLL_TOD_CTRL 0, [0x19]), (DPLL_TOD_CTRL 0, [0x19]),
      (DPLL_TOD_SEC 0, [0, 0, 0, 0, 0, 5]), (DPLL_TOD_NSEC 0, [0, 0, 0, 0, 0, 0]),
      (DPLL_TOD_CTRL 0, [0x11]),
      (DPLL_OUTPUT_PHASE_STEP_NUMBER, [1]),
      (DPLL_SYNTH_MB_MASK, [0, 1]), (DPLL_SYNTH_MB_SEM, [2]),
      (DPLL_OUTPUT_PHASE_STEP_DATA, [0x02, 0xFA, 0xF0, 0x80]),
      (DPLL_OUTPUT_PHASE_STEP_MASK, [0, 1]), (DPLL_OUTPUT_PHASE_STEP_CTRL, [0x0B])] \<and>
   zl3073x_ptp_adjtime 0 5 (regfile (synth_regs 0x4E20 0x1388 1 1)) =
     Some (zl3073x_ptp_steptime' 0 5 (regfile (synth_regs 0x4E20 0x1388 1 1))) \<and>
   bus_writes (bus_log (snd (zl3073x_ptp_steptime' 0 5 (regfile (synth_regs 0x4E20 0x1388 1 1))))) =
     [(DPLL_OUTPUT_PHASE_STEP_NUMBER, [1]),
      (DPLL_SYNTH_MB_MASK, [0, 1]), (DPLL_SYNTH_MB_SEM, [2]),
      (DPLL_OUTPUT_PHASE_STEP_DATA, [0, 0, 0, 0]),
      (DPLL_OUTPUT_PHASE_STEP_MASK, [0, 1]), (DPLL_OUTPUT_PHASE_STEP_CTRL, [0x0B])]"
proof -
  have large: "NSEC_PER_SEC \<le> \<bar>sint (2500000000 :: s64)\<bar>"
    and small: "\<bar>sint (5 :: s64)\<bar> < NSEC_PER_SEC"
    by (simp_all add: NSEC_PER_SEC_def)
  from adjtime_step_or_slew [of 5 0 "regfile (synth_regs 0x4E20 0x1388 1 1)"] small
  have step: "zl3073x_ptp_adjtime 0 5 (regfile (synth_regs 0x4E20 0x1388 1 1)) =
     Some (zl3073x_ptp_steptime' 0 5 (regfile (synth_regs 0x4E20 0x1388 1 1)))"
    by blast
  from adjtime_step_or_slew [of 2500000000 0 "ticking (synth_regs 0x4E20 0x1388 1 1)"] large
  have slew: "zl3073x_ptp_adjtime 0 2500000000 (ticking (synth_regs 0x4E20 0x1388 1 1)) =
        (case zl3073x_ptp_wait_sec_rollover 0 (ticking (synth_regs 0x4E20 0x1388 1 1)) of
           None \<Rightarrow> None
         | Some (Inl e, z1) \<Rightarrow> Some (Inl e, z1)
         | Some (Inr u, z1) \<Rightarrow> Some (
             seq (zl3073x_ptp_gettime64' 0 ZL3073X_TOD_CTRL_CMD_READ_NEXT_1HZ) (\<lambda>ts.
             seq (zl3073x_ptp_settime64' 0
                    (timespec64_add ts \<lparr>tv_sec = sint (2500000000 :: s64) sdiv NSEC_PER_SEC, tv_nsec = 0\<rparr>)
                    ZL3073X_TOD_CTRL_CMD_WRITE_NEXT_1HZ) (\<lambda>_.
             seq (readx_poll_timeout_atomic (zl3073x_ptp_tod_sem 0) tod_sem_clear
                    READ_SLEEP_US READ_TIMEOUT_US) (\<lambda>_.
               zl3073x_ptp_steptime' 0 (word_of_int (sint (2500000000 :: s64) smod NSEC_PER_SEC))))) z1))"
    by blast
  have slew_run:
    "map_option fst (zl3073x_ptp_adjtime 0 2500000000 (ticking (synth_regs 0x4E20 0x1388 1 1))) =
       Some (Inr ()) \<and>
     bus_writes (bus_log (snd (the
       (zl3073x_ptp_adjtime 0 2500000000 (ticking (synth_regs 0x4E20 0x1388 1 1)))))) =
     [(DPLL_TOD_CTRL 0, [0x19]), (DPLL_TOD_CTRL 0, [0x19]), (DPLL_TOD_CTRL 0, [0x19]),
      (DPLL_TOD_SEC 0, [0, 0, 0, 0, 0, 5]), (DPLL_TOD_NSEC 0, [0, 0, 0, 0, 0, 0]),
      (DPLL_TOD_CTRL 0, [0x11]),
      (DPLL_OUTPUT_PHASE_STEP_NUMBER, [1]),
      (DPLL_SYNTH_MB_MASK, [0, 1]), (DPLL_SYNTH_MB_SEM, [2]),
      (DPLL_OUTPUT_PHASE_STEP_DATA, [0x02, 0xFA, 0xF0, 0x80]),
      (DPLL_OUTPUT_PHASE_STEP_MASK, [0, 1]), (DPLL_OUTPUT_PHASE_STEP_CTRL, [0x0B])]"
    unfolding slew
    by (simp add: servo_defs run_defs timespec64_add_def)
  have step_run:
    "bus_writes (bus_log (snd (zl3073x_ptp_steptime' 0 5 (regfile (synth_regs 0x4E20 0x1388 1 1))))) =
     [(DPLL_OUTPUT_PHASE_STEP_NUMBER, [1]),
      (DPLL_SYNTH_MB_MASK, [0, 1]), (DPLL_SYNTH_MB_SEM, [2]),
      (DPLL_OUTPUT_PHASE_STEP_DATA, [0, 0, 0, 0]),
      (DPLL_OUTPUT_PHASE_STEP_MASK, [0, 1]), (DPLL_OUTPUT_PHASE_STEP_CTRL, [0x0B])]"
    by (simp add: servo_defs run_defs)
  from large small step slew_run step_run show ?thesis by blast
qed

section \<open>An adjustment by zero\<close>

lemma adjtime_zero_run:
  "map_option fst (zl3073x_ptp_adjtime 0 0 (regfile (synth_regs 0x4E20 0x1388 1 1))) = Some (Inr ()) \<and>
   bus_writes (bus_log (snd (the (zl3073x_ptp_adjtime 0 0 (regfile (synth_regs 0x4E20 0x1388 1 1)))))) =
     [(DPLL_OUTPUT_PHASE_STEP_NUMBER, [1]),
      (DPLL_SYNTH_MB_MASK, [0, 1]), (DPLL_SYNTH_MB_SEM, [2]),
      (DPLL_OUTPUT_PHASE_STEP_DATA, [0, 0, 0, 0]),
      (DPLL_OUTPUT_PHASE_STEP_MASK, [0, 1]), (DPLL_OUTPUT_PHASE_STEP_CTRL, [0x0B])]"
  by (simp add: servo_defs run_defs)

text \<open>
  C7. Claim: \<^verbatim>\<open>zl3073x_ptp_adjtime\<close> with an offset of 0 writes no register at all
  after its poll for an idle phase step. The source has no case for 0: the call is
  \<^verbatim>\<open>_zl3073x_ptp_steptime(dpll, 0)\<close>. On a register file with the synthesizer at
  100 MHz it succeeds, having written the step count and started a phase step.
\<close>

theorem adjtime_zero_writes_registers:
  "map_option fst (zl3073x_ptp_adjtime 0 0 (regfile (synth_regs 0x4E20 0x1388 1 1))) = Some (Inr ()) \<and>
   BusWrite DPLL_OUTPUT_PHASE_STEP_NUMBER [1] 0 \<in>
     set (bus_log (snd (the (zl3073x_ptp_adjtime 0 0 (regfile (synth_regs 0x4E20 0x1388 1 1)))))) \<and>
   BusWrite DPLL_OUTPUT_PHASE_STEP_CTRL [0x0B] 0 \<in>
     set (bus_log (snd (the (zl3073x_ptp_adjtime 0 0 (regfile (synth_regs 0x4E20 0x1388 1 1))))))"
  by (simp add: servo_defs run_defs)

text \<open>
  C7, as the code has it: an offset of 0 is a phase step of 0 cycles. The call is the
  phase step itself; whatever the device does, it writes nothing but the six registers
  of the phase step and of the synthesizer mailbox, none of them the ToD control
  register, and the step data it writes are four zero bytes.
\<close>

theorem adjtime_zero_is_phase_step_by_zero:
  "zl3073x_ptp_adjtime index 0 z = Some (zl3073x_ptp_steptime' index 0 z) \<and>
   (\<exists>ops. bus_log (snd (zl3073x_ptp_steptime' index 0 z)) = bus_log z @ ops \<and>
      (\<forall>(regaddr, bytes) \<in> set (bus_writes ops).
          regaddr \<in> {DPLL_OUTPUT_PHASE_STEP_NUMBER, DPLL_SYNTH_MB_MASK, DPLL_SYNTH_MB_SEM,
                     DPLL_OUTPUT_PHASE_STEP_DATA, DPLL_OUTPUT_PHASE_STEP_MASK,
                     DPLL_OUTPUT_PHASE_STEP_CTRL} \<and>
          regaddr \<noteq> DPLL_TOD_CTRL index \<and>
          (regaddr = DPLL_OUTPUT_PHASE_STEP_DATA \<longrightarrow> bytes = [0, 0, 0, 0])))"
proof
  show "zl3073x_ptp_adjtime index 0 z = Some (zl3073x_ptp_steptime' index 0 z)"
    by (rule adjtime_small) (simp add: NSEC_PER_SEC_def)
next
  let ?W = "\<lambda>regaddr (bytes :: u8 list).
      regaddr \<in> {DPLL_OUTPUT_PHASE_STEP_NUMBER, DPLL_SYNTH_MB_MASK, DPLL_SYNTH_MB_SEM,
                 DPLL_OUTPUT_PHASE_STEP_DATA, DPLL_OUTPUT_PHASE_STEP_MASK,
                 DPLL_OUTPUT_PHASE_STEP_CTRL} \<and>
      regaddr \<noteq> DPLL_TOD_CTRL index \<and>
      (regaddr = DPLL_OUTPUT_PHASE_STEP_DATA \<longrightarrow> bytes = [0, 0, 0, 0])"
  have lt: "unat index < 256"
    using unsigned_less [of index, where 'a = nat] by simp
  have "appends (only_writes ?W) (zl3073x_ptp_steptime' index 0)"
    by (rule steptime_appends) (use lt in \<open>simp_all add: reg_defs Let_def\<close>)
  from appendsD [OF this, of z] obtain ops
    where "bus_log (snd (zl3073x_ptp_steptime' index 0 z)) = bus_log z @ ops"
      "list_all (only_writes ?W) ops" by auto
  with bus_writes_only [of ?W ops]
  show "\<exists>ops. bus_log (snd (zl3073x_ptp_steptime' index 0 z)) = bus_log z @ ops \<and>
      (\<forall>(regaddr, bytes) \<in> set (bus_writes ops).
          regaddr \<in> {DPLL_OUTPUT_PHASE_STEP_NUMBER, DPLL_SYNTH_MB_MASK, DPLL_SYNTH_MB_SEM,
                     DPLL_OUTPUT_PHASE_STEP_DATA, DPLL_OUTPUT_PHASE_STEP_MASK,
                     DPLL_OUTPUT_PHASE_STEP_CTRL} \<and>
          regaddr \<noteq> DPLL_TOD_CTRL index \<and>
          (regaddr = DPLL_OUTPUT_PHASE_STEP_DATA \<longrightarrow> bytes = [0, 0, 0, 0]))"
    by blast
qed

theorem adjtime_zero_is_phase_step_by_zero_witness:
  "zl3073x_ptp_adjtime 0 0 (regfile (synth_regs 0x4E20 0x1388 1 1)) =
     Some (zl3073x_ptp_steptime' 0 0 (regfile (synth_regs 0x4E20 0x1388 1 1))) \<and>
   bus_writes (bus_log (snd (zl3073x_ptp_steptime' 0 0 (regfile (synth_regs 0x4E20 0x1388 1 1))))) =
     [(DPLL_OUTPUT_PHASE_STEP_NUMBER, [1]),
      (DPLL_SYNTH_MB_MASK, [0, 1]), (DPLL_SYNTH_MB_SEM, [2]),
      (DPLL_OUTPUT_PHASE_STEP_DATA, [0, 0, 0, 0]),
      (DPLL_OUTPUT_PHASE_STEP_MASK, [0, 1]), (DPLL_OUTPUT_PHASE_STEP_CTRL, [0x0B])]"
proof -
  from adjtime_zero_is_phase_step_by_zero [of 0 "regfile (synth_regs 0x4E20 0x1388 1 1)"]
  have eq: "zl3073x_ptp_adjtime 0 0 (regfile (synth_regs 0x4E20 0x1388 1 1)) =
     Some (zl3073x_ptp_steptime' 0 0 (regfile (synth_regs 0x4E20 0x1388 1 1)))"
    by blast
  from adjtime_zero_run show ?thesis
    unfolding eq by simp
qed

section \<open>Requests for a periodic output\<close>

text \<open>
  C6. A request to enable a periodic output is refused with \<^verbatim>\<open>-ERANGE\<close>, the device
  untouched and nothing transferred, if its period is not exactly one second or its
  start is off the second: the offset of the start is its nanoseconds,
  \<^verbatim>\<open>rq->perout.start.nsec\<close>, which the source tests beside the two fields of the
  period (\<^verbatim>\<open>Only accept a 1-PPS aligned to the second\<close>). The whole seconds of the
  start play no part in what the call does.
\<close>

theorem ptp_enable_perout_range:
  "(on \<noteq> 0 \<and>
    (ct_nsec (perout_start perout) \<noteq> 0 \<or> ct_sec (perout_period perout) \<noteq> 1 \<or>
     ct_nsec (perout_period perout) \<noteq> 0) \<longrightarrow>
      zl3073x_ptp_enable index (PTP_CLK_REQ_PEROUT perout) on z = (Inl (Errno (- ERANGE)), z)) \<and>
   zl3073x_ptp_enable index
     (PTP_CLK_REQ_PEROUT (perout\<lparr>perout_start := (perout_start perout)\<lparr>ct_sec := sec\<rparr>\<rparr>)) on z =
   zl3073x_ptp_enable index (PTP_CLK_REQ_PEROUT perout) on z"
proof -
  have sel: "perout_index (perout\<lparr>perout_start := start\<rparr>) = perout_index perout"
    "perout_flags (perout\<lparr>perout_start := start\<rparr>) = perout_flags perout"
    "perout_on (perout\<lparr>perout_start := start\<rparr>) = perout_on perout" for start
    by simp_all
  have en: "zl3073x_ptp_perout_enable index (perout\<lparr>perout_start := start\<rparr>) =
        zl3073x_ptp_perout_enable index perout" for start
    unfolding zl3073x_ptp_perout_enable_def sel by (rule refl)
  have dis: "zl3073x_ptp_perout_disable index (perout\<lparr>perout_start := start\<rparr>) =
        zl3073x_ptp_perout_disable index perout" for start
    unfolding zl3073x_ptp_perout_disable_def sel by (rule refl)
  show ?thesis
    by (simp add: zl3073x_ptp_enable_def ret_err_def en dis)
qed

theorem ptp_enable_perout_range_witness:
  "zl3073x_ptp_enable 0
     (PTP_CLK_REQ_PEROUT
        \<lparr>perout_start = \<lparr>ct_sec = 0, ct_nsec = 0\<rparr>,
         perout_period = \<lparr>ct_sec = 0, ct_nsec = 500000000\<rparr>,
         perout_index = 0, perout_flags = 0,
         perout_on = \<lparr>ct_sec = 0, ct_nsec = 0\<rparr>\<rparr>)
     1 (regfile (synth_regs 0x4E20 0x1388 1 1)) =
   (Inl (Errno (- ERANGE)), regfile (synth_regs 0x4E20 0x1388 1 1))"
  using ptp_enable_perout_range
    [of 1 "\<lparr>perout_start = \<lparr>ct_sec = 0, ct_nsec = 0\<rparr>,
            perout_period = \<lparr>ct_sec = 0, ct_nsec = 500000000\<rparr>,
            perout_index = 0, perout_flags = 0,
            perout_on = \<lparr>ct_sec = 0, ct_nsec = 0\<rparr>\<rparr>"
        0 "regfile (synth_regs 0x4E20 0x1388 1 1)"]
  by simp

text \<open>
  A start on a later whole second is aligned to the second: with a start of 5 s and a
  period of 1 s the request is accepted, and the output is enabled with eight register
  writes.
\<close>

lemma ptp_enable_accepts_start_of_5s:
  "fst (zl3073x_ptp_enable 0
          (PTP_CLK_REQ_PEROUT
             \<lparr>perout_start = \<lparr>ct_sec = 5, ct_nsec = 0\<rparr>,
              perout_period = \<lparr>ct_sec = 1, ct_nsec = 0\<rparr>,
              perout_index = 0, perout_flags = 0,
              perout_on = \<lparr>ct_sec = 0, ct_nsec = 0\<rparr>\<rparr>)
          1 (regfile (synth_regs 0x4E20 0x1388 1 1))) = Inr () \<and>
   bus_writes (bus_log (snd (zl3073x_ptp_enable 0
          (PTP_CLK_REQ_PEROUT
             \<lparr>perout_start = \<lparr>ct_sec = 5, ct_nsec = 0\<rparr>,
              perout_period = \<lparr>ct_sec = 1, ct_nsec = 0\<rparr>,
              perout_index = 0, perout_flags = 0,
              perout_on = \<lparr>ct_sec = 0, ct_nsec = 0\<rparr>\<rparr>)
          1 (regfile (synth_regs 0x4E20 0x1388 1 1))))) =
     [(DPLL_OUTPUT_MB_MASK, [0, 1]), (DPLL_OUTPUT_MB_SEM, [2]),
      (DPLL_OUTPUT_MODE, [0x50]), (DPLL_OUTPUT_GPO_EN, [0]),
      (DPLL_SYNTH_MB_MASK, [0, 1]), (DPLL_SYNTH_MB_SEM, [2]),
      (DPLL_OUTPUT_DIV, [0x05, 0xF5, 0xE1, 0x00]),
      (DPLL_OUTPUT_MB_SEM, [1])]"
  by (simp add: zl3073x_ptp_enable_def zl3073x_ptp_perout_enable_def zl3073x_ptp_enable_pin'_def
        ZL3073X_P_PIN_def ZL3073X_N_PIN_def ZL3073X_BOTH_DISABLED_def ZL3073X_BOTH_ENABLED_def
        ZL3073X_P_ENABLE_def ZL3073X_N_ENABLE_def DPLL_OUTPUT_MODE_SIGNAL_FORMAT_def
        DPLL_OUTPUT_MODE_SIGNAL_FORMAT_GET_def PTP_PEROUT_DUTY_CYCLE_def
        zl3073x_ptp_get_synth_freq'_def signed_divide_int_def run_defs)

section \<open>Reference priority: two priorities in one byte\<close>
















section \<open>Waiting for the seconds to roll over\<close>

text \<open>
  The ways out of a turn of the loop, and the turns that have none. A poll fails only
  by its timeout: a read of the semaphore register that fails hands its return code to
  the poll as the value read. If, from the states a predicate \<open>I\<close> holds of, every turn
  has its poll and its time read succeed, with seconds not above those the loop holds,
  and ends in such a state again, then the loop has no result.
\<close>

lemma poll_error_is_timeout:
  "readx_poll_timeout_atomic op cond sleep_us timeout_us z = (Inl e, z1) \<Longrightarrow> e = Errno (- ETIMEDOUT)"
  by (auto simp: readx_poll_timeout_atomic_def split: prod.splits if_splits)

lemma poll_loop_first:
  "cond (fst (op z)) \<Longrightarrow> poll_loop n op cond z = (True, snd (op z))"
  by (cases n; cases "op z") simp_all

lemma wait_loop_poll_error:
  assumes "readx_poll_timeout_atomic (zl3073x_ptp_tod_sem index) tod_sem_clear READ_SLEEP_US READ_TIMEOUT_US z
             = (Inl e, z1)"
  shows "zl3073x_ptp_wait_sec_rollover_loop index init_ts z = Some (Inl e, z1)"
  by (subst zl3073x_ptp_wait_sec_rollover_loop.simps) (simp add: assms)

lemma wait_loop_gettime_error:
  assumes "readx_poll_timeout_atomic (zl3073x_ptp_tod_sem index) tod_sem_clear READ_SLEEP_US READ_TIMEOUT_US z
             = (Inr u, z1)"
    and "zl3073x_ptp_gettime64' index ZL3073X_TOD_CTRL_CMD_READ_NEXT_1HZ z1 = (Inl e, z2)"
  shows "zl3073x_ptp_wait_sec_rollover_loop index init_ts z = Some (Inl e, z2)"
  by (subst zl3073x_ptp_wait_sec_rollover_loop.simps) (simp add: assms)

lemma wait_loop_rolled_over:
  assumes "readx_poll_timeout_atomic (zl3073x_ptp_tod_sem index) tod_sem_clear READ_SLEEP_US READ_TIMEOUT_US z
             = (Inr u, z1)"
    and "zl3073x_ptp_gettime64' index ZL3073X_TOD_CTRL_CMD_READ_NEXT_1HZ z1 = (Inr ts, z2)"
    and "tv_sec init_ts \<noteq> 0" "tv_sec init_ts < tv_sec ts"
  shows "zl3073x_ptp_wait_sec_rollover_loop index init_ts z = Some (Inr (), z2)"
  by (subst zl3073x_ptp_wait_sec_rollover_loop.simps) (simp add: assms)

lemma wait_loop_never_returns_aux:
  assumes step: "\<And>init w. I init w \<Longrightarrow>
      \<exists>u w1 ts w2.
        readx_poll_timeout_atomic (zl3073x_ptp_tod_sem index) tod_sem_clear READ_SLEEP_US READ_TIMEOUT_US w
          = (Inr u, w1) \<and>
        zl3073x_ptp_gettime64' index ZL3073X_TOD_CTRL_CMD_READ_NEXT_1HZ w1 = (Inr ts, w2) \<and>
        (if tv_sec init = 0 then I ts w2 else tv_sec ts \<le> tv_sec init \<and> I init w2)"
    and "zl3073x_ptp_wait_sec_rollover_loop i init_ts z = Some y"
    and "i = index"
    and "I init_ts z"
  shows False
  using assms(2-)
proof (induction i init_ts z y
    rule: zl3073x_ptp_wait_sec_rollover_loop.raw_induct [rotated 1, consumes 1])
  case (1 loop i init_ts z y)
  note i = \<open>i = index\<close>
  let ?poll = "readx_poll_timeout_atomic (zl3073x_ptp_tod_sem index) tod_sem_clear
                 READ_SLEEP_US READ_TIMEOUT_US"
  let ?get = "zl3073x_ptp_gettime64' index ZL3073X_TOD_CTRL_CMD_READ_NEXT_1HZ"
  from 1(2) have F: "(case ?poll z of
        (Inl e, z1) \<Rightarrow> Some (Inl e, z1)
      | (Inr u, z1) \<Rightarrow>
          (case ?get z1 of
             (Inl e, z2) \<Rightarrow> Some (Inl e, z2)
           | (Inr ts, z2) \<Rightarrow>
               if tv_sec init_ts = 0 then loop index ts z2
               else if tv_sec init_ts < tv_sec ts then Some (Inr (), z2)
               else loop index init_ts z2)) = Some y"
    unfolding i .
  from step [OF \<open>I init_ts z\<close>] obtain u z1 ts z2 where
    p: "?poll z = (Inr u, z1)" and g: "?get z1 = (Inr ts, z2)"
    and nxt: "if tv_sec init_ts = 0 then I ts z2 else tv_sec ts \<le> tv_sec init_ts \<and> I init_ts z2"
    by blast
  from F have G: "(if tv_sec init_ts = 0 then loop index ts z2
                  else if tv_sec init_ts < tv_sec ts then Some (Inr (), z2)
                  else loop index init_ts z2) = Some y"
    by (simp only: p g prod.case sum.case)
  show ?case
  proof (cases "tv_sec init_ts = 0")
    case True
    with G nxt have "loop index ts z2 = Some y" "I ts z2" by simp_all
    from "1.IH" [OF this(1) refl this(2)] show ?thesis .
  next
    case False
    with nxt have le: "tv_sec ts \<le> tv_sec init_ts" and inv: "I init_ts z2" by simp_all
    with False G have "loop index init_ts z2 = Some y" by simp
    from "1.IH" [OF this refl inv] show ?thesis .
  qed
qed

lemma wait_loop_never_returns:
  assumes "\<And>init w. I init w \<Longrightarrow>
      \<exists>u w1 ts w2.
        readx_poll_timeout_atomic (zl3073x_ptp_tod_sem index) tod_sem_clear READ_SLEEP_US READ_TIMEOUT_US w
          = (Inr u, w1) \<and>
        zl3073x_ptp_gettime64' index ZL3073X_TOD_CTRL_CMD_READ_NEXT_1HZ w1 = (Inr ts, w2) \<and>
        (if tv_sec init = 0 then I ts w2 else tv_sec ts \<le> tv_sec init \<and> I init w2)"
    and "I init_ts z"
  shows "zl3073x_ptp_wait_sec_rollover_loop index init_ts z = None"
proof (cases "zl3073x_ptp_wait_sec_rollover_loop index init_ts z")
  case None
  then show ?thesis .
next
  case (Some y)
  from wait_loop_never_returns_aux [of I index index init_ts z y, OF assms(1) Some refl assms(2)]
  show ?thesis by simp
qed

lemma pair_of_fst: "fst p = a \<Longrightarrow> p = (a, snd p)"
  by (simp add: prod_eq_iff)

text \<open>
  One turn of the loop on a register file whose ToD semaphore is clear, for either
  DPLL: the poll succeeds with one read, and the time read is the time the registers
  hold, which the command written does not change.
\<close>

lemma tod_sem_clearI:
  fixes b :: u8
  assumes "b AND 0x10 = 0"
  shows "tod_sem_clear (uint b)"
proof -
  have "uint (0x10 AND b) = 0" using assms by (simp add: and.commute)
  then show ?thesis by (simp add: tod_sem_clear_def DPLL_TOD_CTRL_SEM_def uint_and)
qed

lemma tod_poll_regfile:
  assumes "regmap_bulk_read z = regfile_read" "regmap z (DPLL_TOD_CTRL index) AND 0x10 = 0"
  shows "readx_poll_timeout_atomic (zl3073x_ptp_tod_sem index) tod_sem_clear READ_SLEEP_US READ_TIMEOUT_US z =
           (Inr (), z\<lparr>bus_log := bus_log z @
              [BusRead (DPLL_TOD_CTRL index) 1 0 [regmap z (DPLL_TOD_CTRL index)]]\<rparr>)"
  using poll_loop_clear [of z tod_sem_clear "DPLL_TOD_CTRL index", OF assms(1) tod_sem_clearI [OF assms(2)]]
  by (simp add: readx_poll_timeout_atomic_def zl3073x_ptp_tod_sem_def)

lemma gettime_regfile:
  assumes "index = 0 \<or> index = 1"
    and "regmap_bulk_read z = regfile_read" "regmap_bulk_write z = regfile_write"
    and "regmap z (DPLL_TOD_CTRL index) AND 0x10 = 0"
  shows "\<exists>z2. zl3073x_ptp_gettime64' index ZL3073X_TOD_CTRL_CMD_READ_NEXT_1HZ z =
                 (Inr (frozen_tod index (regmap z)), z2) \<and>
           regmap_bulk_read z2 = regfile_read \<and> regmap_bulk_write z2 = regfile_write \<and>
           regmap z2 = (regmap z)(DPLL_TOD_CTRL index := 0x09)"
  using assms(1)
proof
  assume i: "index = 0"
  from assms(2-) tod_sem_clearI [of "regmap z 0x2b8"] show ?thesis
    unfolding i by (simp add: zl3073x_ptp_gettime64'_def frozen_tod_def run_defs)
next
  assume i: "index = 1"
  from assms(2-) tod_sem_clearI [of "regmap z 0x2b9"] show ?thesis
    unfolding i by (simp add: zl3073x_ptp_gettime64'_def frozen_tod_def run_defs)
qed

lemma frozen_tod_ctrl:
  "frozen_tod index (m(DPLL_TOD_CTRL index := v)) = frozen_tod index m"
  by (simp add: frozen_tod_def DPLL_TOD_CTRL_def DPLL_TOD_SEC_def DPLL_TOD_NSEC_def
      DPLL_TOD_SEC_SIZE_def DPLL_TOD_NSEC_SIZE_def upt_conv_Cons)

lemma stopped_clock_turn:
  assumes i: "index = 0 \<or> index = 1" and s: "stopped_clock index init w"
  shows "\<exists>u w1 ts w2.
        readx_poll_timeout_atomic (zl3073x_ptp_tod_sem index) tod_sem_clear READ_SLEEP_US READ_TIMEOUT_US w
          = (Inr u, w1) \<and>
        zl3073x_ptp_gettime64' index ZL3073X_TOD_CTRL_CMD_READ_NEXT_1HZ w1 = (Inr ts, w2) \<and>
        (if tv_sec init = 0 then stopped_clock index ts w2
         else tv_sec ts \<le> tv_sec init \<and> stopped_clock index init w2)"
proof -
  let ?c = "DPLL_TOD_CTRL index"
  let ?w1 = "w\<lparr>bus_log := bus_log w @ [BusRead ?c 1 0 [regmap w ?c]]\<rparr>"
  let ?T = "frozen_tod index (regmap w)"
  from s have rd: "regmap_bulk_read w = regfile_read" and wr: "regmap_bulk_write w = regfile_write"
    and clear: "regmap w ?c AND 0x10 = 0"
    and le: "tv_sec init = 0 \<or> tv_sec ?T \<le> tv_sec init"
    by (simp_all add: stopped_clock_def)
  have p: "readx_poll_timeout_atomic (zl3073x_ptp_tod_sem index) tod_sem_clear READ_SLEEP_US READ_TIMEOUT_US w
          = (Inr (), ?w1)"
    using rd clear by (rule tod_poll_regfile)
  have "\<exists>z2. zl3073x_ptp_gettime64' index ZL3073X_TOD_CTRL_CMD_READ_NEXT_1HZ ?w1 =
                 (Inr (frozen_tod index (regmap ?w1)), z2) \<and>
           regmap_bulk_read z2 = regfile_read \<and> regmap_bulk_write z2 = regfile_write \<and>
           regmap z2 = (regmap ?w1)(?c := 0x09)"
    using i rd wr clear by (intro gettime_regfile) simp_all
  then obtain w2 where g: "zl3073x_ptp_gettime64' index ZL3073X_TOD_CTRL_CMD_READ_NEXT_1HZ ?w1 = (Inr ?T, w2)"
    and w2: "regmap_bulk_read w2 = regfile_read" "regmap_bulk_write w2 = regfile_write"
      "regmap w2 = (regmap w)(?c := 0x09)"
    by auto
  have T2: "frozen_tod index (regmap w2) = ?T" by (simp add: w2 frozen_tod_ctrl)
  have clear2: "regmap w2 ?c AND 0x10 = 0" by (simp add: w2)
  have "if tv_sec init = 0 then stopped_clock index ?T w2
         else tv_sec ?T \<le> tv_sec init \<and> stopped_clock index init w2"
    using le w2(1,2) clear2 by (auto simp add: stopped_clock_def T2)
  with p g show ?thesis by blast
qed

lemma wait_sec_rollover_frozen:
  assumes "index = 0 \<or> index = 1"
    and "regmap_bulk_read z = regfile_read" "regmap_bulk_write z = regfile_write"
    and "regmap z (DPLL_TOD_CTRL index) AND 0x10 = 0"
  shows "zl3073x_ptp_wait_sec_rollover index z = None"
  unfolding zl3073x_ptp_wait_sec_rollover_def
proof (rule wait_loop_never_returns [of "stopped_clock index"])
  show "stopped_clock index \<lparr>tv_sec = 0, tv_nsec = 0\<rparr> z"
    using assms(2-) by (simp add: stopped_clock_def)
qed (rule stopped_clock_turn [OF assms(1)])

text \<open>
  C9. Claim: \<^verbatim>\<open>zl3073x_ptp_wait_sec_rollover\<close> returns for every behaviour of the
  hardware, an outer cap on the turns of its loop making it return an error if the
  seconds never increase. The source has \<^verbatim>\<open>do { ... } while (true)\<close> with no count
  of turns. On a register file with all ToD registers zero every transfer succeeds, the
  semaphore is clear and the seconds stay 0: the call never returns.
\<close>

theorem wait_sec_rollover_never_returns_on_stopped_clock:
  "zl3073x_ptp_wait_sec_rollover 0 (regfile (synth_regs 0x4E20 0x1388 1 1)) = None"
  by (rule wait_sec_rollover_frozen) (simp_all add: regfile_def synth_regs_def DPLL_TOD_CTRL_def)

text \<open>
  C9, as the code has it: the loop has no cap on its turns, and the only bound is the
  timeout of the semaphore poll inside a turn. A turn ends the call in three cases: its
  poll of the ToD semaphore fails, which it does by timeout only, and the call returns
  \<^verbatim>\<open>-ETIMEDOUT\<close>; the time read that follows fails, and the call returns the error
  of the time read; or the seconds read are above the seconds the loop holds, these
  not zero, and the call returns success. Whatever the device and the DPLL, as long as
  every poll and every time read succeeds and the seconds read are not above the
  seconds held, the loop goes on: on such a device the call never returns.
\<close>

theorem wait_sec_rollover_exits:
  "(\<forall>e z1.
      readx_poll_timeout_atomic (zl3073x_ptp_tod_sem index) tod_sem_clear READ_SLEEP_US READ_TIMEOUT_US z
        = (Inl e, z1) \<longrightarrow>
      e = Errno (- ETIMEDOUT) \<and>
      zl3073x_ptp_wait_sec_rollover_loop index init_ts z = Some (Inl e, z1)) \<and>
   (\<forall>u z1 e z2.
      readx_poll_timeout_atomic (zl3073x_ptp_tod_sem index) tod_sem_clear READ_SLEEP_US READ_TIMEOUT_US z
        = (Inr u, z1) \<and>
      zl3073x_ptp_gettime64' index ZL3073X_TOD_CTRL_CMD_READ_NEXT_1HZ z1 = (Inl e, z2) \<longrightarrow>
      zl3073x_ptp_wait_sec_rollover_loop index init_ts z = Some (Inl e, z2)) \<and>
   (\<forall>u z1 ts z2.
      readx_poll_timeout_atomic (zl3073x_ptp_tod_sem index) tod_sem_clear READ_SLEEP_US READ_TIMEOUT_US z
        = (Inr u, z1) \<and>
      zl3073x_ptp_gettime64' index ZL3073X_TOD_CTRL_CMD_READ_NEXT_1HZ z1 = (Inr ts, z2) \<and>
      tv_sec init_ts \<noteq> 0 \<and> tv_sec init_ts < tv_sec ts \<longrightarrow>
      zl3073x_ptp_wait_sec_rollover_loop index init_ts z = Some (Inr (), z2)) \<and>
   ((\<forall>init w. I init w \<longrightarrow>
      (\<exists>u w1 ts w2.
         readx_poll_timeout_atomic (zl3073x_ptp_tod_sem index) tod_sem_clear READ_SLEEP_US READ_TIMEOUT_US w
           = (Inr u, w1) \<and>
         zl3073x_ptp_gettime64' index ZL3073X_TOD_CTRL_CMD_READ_NEXT_1HZ w1 = (Inr ts, w2) \<and>
         (if tv_sec init = 0 then I ts w2 else tv_sec ts \<le> tv_sec init \<and> I init w2))) \<and>
    I \<lparr>tv_sec = 0, tv_nsec = 0\<rparr> z \<longrightarrow>
    zl3073x_ptp_wait_sec_rollover index z = None)"
proof (intro conjI allI impI)
  fix e z1
  assume p: "readx_poll_timeout_atomic (zl3073x_ptp_tod_sem index) tod_sem_clear READ_SLEEP_US READ_TIMEOUT_US z
             = (Inl e, z1)"
  then show "e = Errno (- ETIMEDOUT)" by (rule poll_error_is_timeout)
  from p show "zl3073x_ptp_wait_sec_rollover_loop index init_ts z = Some (Inl e, z1)"
    by (rule wait_loop_poll_error)
next
  fix u z1 e z2
  assume "readx_poll_timeout_atomic (zl3073x_ptp_tod_sem index) tod_sem_clear READ_SLEEP_US READ_TIMEOUT_US z
        = (Inr u, z1) \<and>
      zl3073x_ptp_gettime64' index ZL3073X_TOD_CTRL_CMD_READ_NEXT_1HZ z1 = (Inl e, z2)"
  then show "zl3073x_ptp_wait_sec_rollover_loop index init_ts z = Some (Inl e, z2)"
    by (elim conjE) (rule wait_loop_gettime_error)
next
  fix u z1 ts z2
  assume "readx_poll_timeout_atomic (zl3073x_ptp_tod_sem index) tod_sem_clear READ_SLEEP_US READ_TIMEOUT_US z
        = (Inr u, z1) \<and>
      zl3073x_ptp_gettime64' index ZL3073X_TOD_CTRL_CMD_READ_NEXT_1HZ z1 = (Inr ts, z2) \<and>
      tv_sec init_ts \<noteq> 0 \<and> tv_sec init_ts < tv_sec ts"
  then show "zl3073x_ptp_wait_sec_rollover_loop index init_ts z = Some (Inr (), z2)"
    by (elim conjE) (rule wait_loop_rolled_over)
next
  assume a: "(\<forall>init w. I init w \<longrightarrow>
      (\<exists>u w1 ts w2.
         readx_poll_timeout_atomic (zl3073x_ptp_tod_sem index) tod_sem_clear READ_SLEEP_US READ_TIMEOUT_US w
           = (Inr u, w1) \<and>
         zl3073x_ptp_gettime64' index ZL3073X_TOD_CTRL_CMD_READ_NEXT_1HZ w1 = (Inr ts, w2) \<and>
         (if tv_sec init = 0 then I ts w2 else tv_sec ts \<le> tv_sec init \<and> I init w2))) \<and>
    I \<lparr>tv_sec = 0, tv_nsec = 0\<rparr> z"
  then have step: "\<And>init w. I init w \<Longrightarrow>
      \<exists>u w1 ts w2.
         readx_poll_timeout_atomic (zl3073x_ptp_tod_sem index) tod_sem_clear READ_SLEEP_US READ_TIMEOUT_US w
           = (Inr u, w1) \<and>
         zl3073x_ptp_gettime64' index ZL3073X_TOD_CTRL_CMD_READ_NEXT_1HZ w1 = (Inr ts, w2) \<and>
         (if tv_sec init = 0 then I ts w2 else tv_sec ts \<le> tv_sec init \<and> I init w2)"
    and start: "I \<lparr>tv_sec = 0, tv_nsec = 0\<rparr> z"
    by blast+
  show "zl3073x_ptp_wait_sec_rollover index z = None"
    unfolding zl3073x_ptp_wait_sec_rollover_def
    by (rule wait_loop_never_returns [of I, OF step start])
qed

theorem wait_sec_rollover_exits_witness:
  "map_option fst (zl3073x_ptp_wait_sec_rollover_loop 0 \<lparr>tv_sec = 7, tv_nsec = 0\<rparr>
                     (regfile ((\<lambda>_. 0)(0x2b8 := 0x10)))) = Some (Inl (Errno (- ETIMEDOUT))) \<and>
   map_option fst (zl3073x_ptp_wait_sec_rollover_loop 0 \<lparr>tv_sec = 7, tv_nsec = 0\<rparr>
                     (faulty (DPLL_TOD_SEC 0) (\<lambda>_. 0))) = Some (Inl (Errno (- EIO))) \<and>
   map_option fst (zl3073x_ptp_wait_sec_rollover_loop 0 \<lparr>tv_sec = 3, tv_nsec = 0\<rparr>
                     (regfile ((\<lambda>_. 0)(0x317 := 5)))) = Some (Inr ()) \<and>
   zl3073x_ptp_wait_sec_rollover 1 (regfile (synth_regs 15625 10000 66 64)) = None"
proof -
  let ?POLL = "readx_poll_timeout_atomic (zl3073x_ptp_tod_sem 0) tod_sem_clear READ_SLEEP_US READ_TIMEOUT_US"
  let ?GET = "zl3073x_ptp_gettime64' 0 ZL3073X_TOD_CTRL_CMD_READ_NEXT_1HZ"
  let ?stuck = "regfile ((\<lambda>_. 0)(0x2b8 := 0x10)) :: (nat \<Rightarrow> u8) zl3073x"
  let ?bad = "faulty (DPLL_TOD_SEC 0) (\<lambda>_. 0) :: (nat \<Rightarrow> u8) zl3073x"
  let ?late = "regfile ((\<lambda>_. 0)(0x317 := 5)) :: (nat \<Rightarrow> u8) zl3073x"
  let ?still = "regfile (synth_regs 15625 10000 66 64)"
  have "fst (?POLL ?stuck) = Inl (Errno (- ETIMEDOUT))"
    by (simp add: zl3073x_ptp_tod_sem_def tod_sem_clear_def run_defs)
  then have p1: "?POLL ?stuck = (Inl (Errno (- ETIMEDOUT)), snd (?POLL ?stuck))"
    by (rule pair_of_fst)
  from wait_sec_rollover_exits [of 0 ?stuck "\<lparr>tv_sec = 7, tv_nsec = 0\<rparr>", THEN conjunct1, rule_format, OF p1]
  have one: "map_option fst (zl3073x_ptp_wait_sec_rollover_loop 0 \<lparr>tv_sec = 7, tv_nsec = 0\<rparr> ?stuck) =
      Some (Inl (Errno (- ETIMEDOUT)))"
    by simp
  have p2: "?POLL ?bad = (Inr (), ?bad\<lparr>bus_log := [BusRead 0x2b8 1 0 [0]]\<rparr>)"
    by (simp add: poll_loop_first read_reg_op_def faulty_def faulty_read_def drv_defs regfile_def
        regfile_read_def reg_defs)
  have "fst (?GET (?bad\<lparr>bus_log := [BusRead 0x2b8 1 0 [0]]\<rparr>)) = Inl (Errno (- EIO))"
    by (simp add: zl3073x_ptp_gettime64'_def poll_loop_first read_reg_op_def faulty_def faulty_read_def
        EIO_def drv_defs regfile_def regfile_read_def regfile_write_def completed_def reg_defs)
  then have g2: "?GET (?bad\<lparr>bus_log := [BusRead 0x2b8 1 0 [0]]\<rparr>) =
      (Inl (Errno (- EIO)), snd (?GET (?bad\<lparr>bus_log := [BusRead 0x2b8 1 0 [0]]\<rparr>)))"
    by (rule pair_of_fst)
  from wait_sec_rollover_exits [of 0 ?bad "\<lparr>tv_sec = 7, tv_nsec = 0\<rparr>", THEN conjunct2, THEN conjunct1,
      rule_format, OF conjI [OF p2 g2]]
  have two: "map_option fst (zl3073x_ptp_wait_sec_rollover_loop 0 \<lparr>tv_sec = 7, tv_nsec = 0\<rparr> ?bad) =
      Some (Inl (Errno (- EIO)))"
    by simp
  have p3: "?POLL ?late = (Inr (), ?late\<lparr>bus_log := [BusRead 0x2b8 1 0 [0]]\<rparr>)"
    by (simp add: zl3073x_ptp_tod_sem_def tod_sem_clear_def run_defs)
  have "fst (?GET (?late\<lparr>bus_log := [BusRead 0x2b8 1 0 [0]]\<rparr>)) = Inr \<lparr>tv_sec = 5, tv_nsec = 0\<rparr>"
    by (simp add: zl3073x_ptp_gettime64'_def zl3073x_ptp_bytearray_to_timestamp_def
        set_normalized_timespec64_def run_defs)
  then have g3: "?GET (?late\<lparr>bus_log := [BusRead 0x2b8 1 0 [0]]\<rparr>) =
      (Inr \<lparr>tv_sec = 5, tv_nsec = 0\<rparr>, snd (?GET (?late\<lparr>bus_log := [BusRead 0x2b8 1 0 [0]]\<rparr>)))"
    by (rule pair_of_fst)
  have lt: "tv_sec \<lparr>tv_sec = 3, tv_nsec = 0\<rparr> \<noteq> 0 \<and>
      tv_sec \<lparr>tv_sec = 3, tv_nsec = 0\<rparr> < tv_sec \<lparr>tv_sec = 5, tv_nsec = 0\<rparr>"
    by simp
  from wait_sec_rollover_exits [of 0 ?late "\<lparr>tv_sec = 3, tv_nsec = 0\<rparr>",
      THEN conjunct2, THEN conjunct2, THEN conjunct1, rule_format, OF conjI [OF p3 conjI [OF g3 lt]]]
  have three: "map_option fst (zl3073x_ptp_wait_sec_rollover_loop 0 \<lparr>tv_sec = 3, tv_nsec = 0\<rparr> ?late) =
      Some (Inr ())"
    by simp
  have turn: "\<forall>init w. stopped_clock 1 init w \<longrightarrow>
      (\<exists>u w1 ts w2.
         readx_poll_timeout_atomic (zl3073x_ptp_tod_sem 1) tod_sem_clear READ_SLEEP_US READ_TIMEOUT_US w
           = (Inr u, w1) \<and>
         zl3073x_ptp_gettime64' 1 ZL3073X_TOD_CTRL_CMD_READ_NEXT_1HZ w1 = (Inr ts, w2) \<and>
         (if tv_sec init = 0 then stopped_clock 1 ts w2
          else tv_sec ts \<le> tv_sec init \<and> stopped_clock 1 init w2))"
    using stopped_clock_turn [of 1] by blast
  have start: "stopped_clock 1 \<lparr>tv_sec = 0, tv_nsec = 0\<rparr> ?still"
    by (simp add: stopped_clock_def regfile_def synth_regs_def DPLL_TOD_CTRL_def)
  from wait_sec_rollover_exits [of 1 ?still _ "stopped_clock 1",
      THEN conjunct2, THEN conjunct2, THEN conjunct2, rule_format, OF conjI [OF turn start]]
  have four: "zl3073x_ptp_wait_sec_rollover 1 ?still = None" .
  from one two three four show ?thesis by (intro conjI)
qed

end
